theory Spec2Isabelle
  imports Main "HOL-Library.Sublist"
begin

section \<open>Go strings\<close>

text \<open>
  Go strings are byte sequences; they are modelled as \<open>string\<close> (a list of bytes).
  The functions of package \<open>strings\<close> that the sources call with a one-byte separator
  (\<open>Replace\<close>, \<open>Split\<close>) are modelled for such a separator. \<open>strings.ToLower\<close>
  lower-cases every Unicode letter; it is a library function outside the sources and is
  taken as it is, as the field \<open>strings_ToLower\<close> of the host below.
\<close>

definition is_upper :: "char \<Rightarrow> bool" where
  "is_upper c = (65 \<le> (of_char c :: nat) \<and> (of_char c :: nat) \<le> 90)"

text \<open>
  What \<open>strings.ToLower\<close> does to a string of ASCII bytes: \<open>A\<close>..\<open>Z\<close> become
  \<open>a\<close>..\<open>z\<close> and every other byte stays. An upper-case ASCII letter has bit 5 clear;
  setting it adds 32 (lemma \<open>lower_char_adds_32\<close>). The example host uses this map.
\<close>

fun lower_char :: "char \<Rightarrow> char" where
  "lower_char (Char b0 b1 b2 b3 b4 b5 b6 b7) =
     (if is_upper (Char b0 b1 b2 b3 b4 b5 b6 b7) then Char b0 b1 b2 b3 b4 True b6 b7
      else Char b0 b1 b2 b3 b4 b5 b6 b7)"

definition ascii_ToLower :: "string \<Rightarrow> string" where
  "ascii_ToLower s = map lower_char s"

text \<open>\<open>strings.Replace(s, old, new, -1)\<close> for a one-byte \<open>old\<close>.\<close>

definition Replace :: "string \<Rightarrow> char \<Rightarrow> string \<Rightarrow> string" where
  "Replace s old new = concat (map (\<lambda>c. if c = old then new else [c]) s)"

definition TrimLeft :: "string \<Rightarrow> string \<Rightarrow> string" where
  "TrimLeft s cutset = dropWhile (\<lambda>c. c \<in> set cutset) s"

fun Contains :: "string \<Rightarrow> string \<Rightarrow> bool" where
  "Contains [] substr = (substr = [])"
| "Contains (c # cs) substr = (prefix substr (c # cs) \<or> Contains cs substr)"

text \<open>\<open>strings.Split(s, sep)\<close> for a one-byte \<open>sep\<close>; the result is never empty.\<close>

fun Split :: "string \<Rightarrow> char \<Rightarrow> string list" where
  "Split [] sep = [[]]"
| "Split (c # cs) sep =
     (if c = sep then [] # Split cs sep
      else (case Split cs sep of [] \<Rightarrow> [[c]] | p # ps \<Rightarrow> (c # p) # ps))"

datatype goos = Unix | Windows

text \<open>
  \<open>os.PathSeparator\<close>, a constant of the platform the program is built for, and
  \<open>os.IsPathSeparator\<close>: on Windows the slash separates path elements as well.
\<close>

definition PathSeparator :: "goos \<Rightarrow> char" where
  "PathSeparator os = (case os of Unix \<Rightarrow> CHR ''/'' | Windows \<Rightarrow> CHR 0x5C)"

definition IsPathSeparator :: "goos \<Rightarrow> char \<Rightarrow> bool" where
  "IsPathSeparator os c =
     (case os of Unix \<Rightarrow> c = CHR ''/'' | Windows \<Rightarrow> c = CHR 0x5C \<or> c = CHR ''/'')"

text \<open>
  \<open>filepath.FromSlash\<close>: every slash becomes the platform's separator. It is the last
  step of \<open>filepath.Clean\<close>, through which every result of \<open>filepath.Abs\<close> has gone.
\<close>

definition FromSlash :: "goos \<Rightarrow> string \<Rightarrow> string" where
  "FromSlash os p = map (\<lambda>c. if c = CHR ''/'' then PathSeparator os else c) p"

text \<open>
  A path in the platform's own form, as \<open>filepath.Abs\<close> returns it: every separator in
  it is the platform's.
\<close>

definition native :: "goos \<Rightarrow> string \<Rightarrow> bool" where
  "native os p = (\<forall>c \<in> set p. IsPathSeparator os c \<longrightarrow> c = PathSeparator os)"


section \<open>The container runtime\<close>

text \<open>
  The label keys are constants of package \<open>labels\<close>, which is not among the sources;
  they are taken as distinct keys.
\<close>

datatype label_key =
    labels_Nitro | labels_Host | labels_Environment | labels_Network | labels_Volume
  | labels_Proxy | labels_ProxyVersion | labels_Type | labels_Path

datatype filter_arg =
    Filter_name string
  | Filter_label label_key string
  | Filter_reference string

datatype mount_type = TypeBind | TypeVolume

record mount =
  mount_Type :: mount_type
  mount_Source :: string
  mount_Target :: string

record port_binding =
  HostIP :: string
  HostPort :: string

text \<open>
  The arguments of \<open>ContainerCreate\<close>: the fields of \<open>container.Config\<close>,
  \<open>container.HostConfig\<close> and \<open>network.NetworkingConfig\<close> that the sources set, and
  the container name. Go maps are maps; a map literal is read in the order it is written.
\<close>

record create_request =
  cr_Image :: string
  cr_Cmd :: "string list"
  cr_Labels :: "label_key \<rightharpoonup> string"
  cr_Env :: "string list"
  cr_ExposedPorts :: "string set"
  cr_NetworkMode :: string
  cr_Mounts :: "mount list"
  cr_ExtraHosts :: "string list"
  cr_PortBindings :: "string \<rightharpoonup> port_binding list"
  cr_Endpoints :: "string \<rightharpoonup> string"
  cr_Name :: string

record exec_config =
  exec_User :: string
  exec_AttachStdout :: bool
  exec_AttachStderr :: bool
  exec_Tty :: bool
  exec_Cmd :: "string list"

text \<open>Every request the program sends to the runtime, with its arguments.\<close>

datatype call =
    Call_NetworkList "filter_arg list"
  | Call_NetworkCreate string string bool "label_key \<rightharpoonup> string"
  | Call_VolumeList "filter_arg list"
  | Call_VolumeCreate string string "label_key \<rightharpoonup> string"
  | Call_ImageList "filter_arg list"
  | Call_ImagePull string
  | Call_ReadFrom string
  | Call_ContainerList bool "filter_arg list"
  | Call_ContainerInspect string
  | Call_ContainerStop string
  | Call_ContainerRemove string
  | Call_ContainerCreate create_request
  | Call_ContainerStart string
  | Call_CopyToContainer string string string
  | Call_ContainerExecCreate string exec_config
  | Call_ContainerExecAttach string
  | Call_ContainerExecStart string
  | Call_ContainerExecInspect string
  | Call_ContainerAttach string
  | Call_StdCopy string

text \<open>
  A Go \<open>error\<close> value, or a run-time panic. \<open>DockerError c\<close> is the error the container
  runtime answers the call \<open>c\<close> with; \<open>Errorf msg (Some e)\<close> is \<open>fmt.Errorf\<close> wrapping
  \<open>e\<close> with \<open>%w\<close> after the text \<open>msg\<close>, and \<open>Errorf msg None\<close> is \<open>fmt.Errorf(msg)\<close>.
\<close>

datatype error =
    DockerError call
  | NoSuchContainer string
  | Errorf string "error option"
  | LibraryError string
  | Panic string

record container =
  ID :: string
  Names :: "string list"
  State :: string
  Config :: create_request

record network =
  network_ID :: string
  network_Name :: string
  network_Labels :: "label_key \<rightharpoonup> string"

record volume =
  volume_Name :: string
  volume_Driver :: string
  volume_Labels :: "label_key \<rightharpoonup> string"

text \<open>
  The runtime as the program sees it through \<open>client.CommonAPIClient\<close>. It is not part
  of the sources; this is the model the program is verified against.
  \<^item> \<open>containers\<close> lists the newest container first, the order in which the runtime
    answers \<open>ContainerList\<close>.
  \<^item> The runtime never hands out an identifier twice: identifiers are drawn from the
    counter \<open>next_id\<close> through the injective \<open>mkid\<close>.
  \<^item> \<open>trace\<close> is the log of all calls received, oldest first.
  \<^item> \<open>fails\<close> decides from the log, the current call included, whether the runtime
    answers with an error; a failed call changes nothing but the log. It stands for every
    transport and runtime failure, so a statement for all \<open>fails\<close> covers them all.
  \<^item> \<open>exec_running\<close> decides from the log what \<open>ContainerExecInspect\<close> reports as
    \<open>Running\<close>; an exec session that never finishes is one for which it stays true.
\<close>

record docker =
  containers :: "container list"
  networks :: "network list"
  volumes :: "volume list"
  images :: "string list"
  next_id :: nat
  trace :: "call list"
  fails :: "call list \<Rightarrow> bool"
  exec_running :: "call list \<Rightarrow> bool"

definition mkid :: "nat \<Rightarrow> string" where
  "mkid n = replicate (Suc n) CHR ''i''"

text \<open>No container carries an identifier that the counter has yet to reach.\<close>

definition fresh_ids :: "docker \<Rightarrow> bool" where
  "fresh_ids d = (\<forall>c \<in> set (containers d). length (ID c) \<le> next_id d)"

text \<open>
  Receiving a call: it is logged; if the runtime fails it, the error is the answer, and
  otherwise the call takes its effect on the logged state.
\<close>

definition invoke :: "call \<Rightarrow> (docker \<Rightarrow> (error + 'a) \<times> docker) \<Rightarrow> docker \<Rightarrow> (error + 'a) \<times> docker" where
  "invoke c effect d =
     (let d' = d\<lparr>trace := trace d @ [c]\<rparr>
      in if fails d (trace d') then (Inl (DockerError c), d') else effect d')"

text \<open>
  Filters. A \<open>name\<close> filter matches every resource whose name contains the text (it is
  fuzzy); a \<open>label\<close> filter asks for the key to carry exactly the value; a
  \<open>reference\<close> filter asks for the image reference.
\<close>

fun network_matches :: "network \<Rightarrow> filter_arg \<Rightarrow> bool" where
  "network_matches n (Filter_name s) = Contains (network_Name n) s"
| "network_matches n (Filter_label k v) = (network_Labels n k = Some v)"
| "network_matches n (Filter_reference r) = False"

fun volume_matches :: "volume \<Rightarrow> filter_arg \<Rightarrow> bool" where
  "volume_matches v (Filter_name s) = Contains (volume_Name v) s"
| "volume_matches v (Filter_label k x) = (volume_Labels v k = Some x)"
| "volume_matches v (Filter_reference r) = False"

fun container_matches :: "container \<Rightarrow> filter_arg \<Rightarrow> bool" where
  "container_matches c (Filter_name s) = (\<exists>n \<in> set (Names c). Contains n s)"
| "container_matches c (Filter_label k v) = (cr_Labels (Config c) k = Some v)"
| "container_matches c (Filter_reference r) = False"

fun image_matches :: "string \<Rightarrow> filter_arg \<Rightarrow> bool" where
  "image_matches i (Filter_reference r) = (i = r)"
| "image_matches i _ = False"

definition NetworkList :: "filter_arg list \<Rightarrow> docker \<Rightarrow> (error + network list) \<times> docker" where
  "NetworkList fs =
     invoke (Call_NetworkList fs)
       (\<lambda>d. (Inr (filter (\<lambda>n. \<forall>f \<in> set fs. network_matches n f) (networks d)), d))"

definition NetworkCreate :: "string \<Rightarrow> string \<Rightarrow> bool \<Rightarrow> (label_key \<rightharpoonup> string) \<Rightarrow> docker \<Rightarrow> (error + string) \<times> docker" where
  "NetworkCreate nm driver attachable ls =
     invoke (Call_NetworkCreate nm driver attachable ls)
       (\<lambda>d. let i = mkid (next_id d)
            in (Inr i, d\<lparr>networks := \<lparr>network_ID = i, network_Name = nm, network_Labels = ls\<rparr> # networks d,
                         next_id := Suc (next_id d)\<rparr>))"

definition VolumeList :: "filter_arg list \<Rightarrow> docker \<Rightarrow> (error + volume list) \<times> docker" where
  "VolumeList fs =
     invoke (Call_VolumeList fs)
       (\<lambda>d. (Inr (filter (\<lambda>v. \<forall>f \<in> set fs. volume_matches v f) (volumes d)), d))"

definition VolumeCreate :: "string \<Rightarrow> string \<Rightarrow> (label_key \<rightharpoonup> string) \<Rightarrow> docker \<Rightarrow> (error + volume) \<times> docker" where
  "VolumeCreate driver nm ls =
     invoke (Call_VolumeCreate driver nm ls)
       (\<lambda>d. let v = \<lparr>volume_Name = nm, volume_Driver = driver, volume_Labels = ls\<rparr>
            in (Inr v, d\<lparr>volumes := v # volumes d\<rparr>))"

definition ImageList :: "filter_arg list \<Rightarrow> docker \<Rightarrow> (error + string list) \<times> docker" where
  "ImageList fs =
     invoke (Call_ImageList fs)
       (\<lambda>d. (Inr (filter (\<lambda>i. \<forall>f \<in> set fs. image_matches i f) (images d)), d))"

text \<open>\<open>ImagePull\<close> answers with a reader on the pull's progress output.\<close>

definition ImagePull :: "string \<Rightarrow> docker \<Rightarrow> (error + string) \<times> docker" where
  "ImagePull ref =
     invoke (Call_ImagePull ref) (\<lambda>d. (Inr ref, d\<lparr>images := ref # images d\<rparr>))"

text \<open>\<open>buf.ReadFrom(rdr)\<close>: reading the progress output to its end.\<close>

definition ReadFrom :: "string \<Rightarrow> docker \<Rightarrow> (error + unit) \<times> docker" where
  "ReadFrom rdr = invoke (Call_ReadFrom rdr) (\<lambda>d. (Inr (), d))"

definition ContainerList :: "bool \<Rightarrow> filter_arg list \<Rightarrow> docker \<Rightarrow> (error + container list) \<times> docker" where
  "ContainerList all fs =
     invoke (Call_ContainerList all fs)
       (\<lambda>d. (Inr (filter (\<lambda>c. (all \<or> State c = ''running'') \<and> (\<forall>f \<in> set fs. container_matches c f))
                    (containers d)), d))"

definition ContainerInspect :: "string \<Rightarrow> docker \<Rightarrow> (error + container) \<times> docker" where
  "ContainerInspect i =
     invoke (Call_ContainerInspect i)
       (\<lambda>d. case find (\<lambda>c. ID c = i) (containers d) of
               None \<Rightarrow> (Inl (NoSuchContainer i), d)
             | Some c \<Rightarrow> (Inr c, d))"

definition set_state :: "string \<Rightarrow> string \<Rightarrow> container \<Rightarrow> container" where
  "set_state i s c = (if ID c = i then c\<lparr>State := s\<rparr> else c)"

definition ContainerStop :: "string \<Rightarrow> docker \<Rightarrow> (error + unit) \<times> docker" where
  "ContainerStop i =
     invoke (Call_ContainerStop i)
       (\<lambda>d. if \<exists>c \<in> set (containers d). ID c = i
            then (Inr (), d\<lparr>containers := map (set_state i ''exited'') (containers d)\<rparr>)
            else (Inl (NoSuchContainer i), d))"

definition ContainerRemove :: "string \<Rightarrow> docker \<Rightarrow> (error + unit) \<times> docker" where
  "ContainerRemove i =
     invoke (Call_ContainerRemove i)
       (\<lambda>d. if \<exists>c \<in> set (containers d). ID c = i
            then (Inr (), d\<lparr>containers := filter (\<lambda>c. ID c \<noteq> i) (containers d)\<rparr>)
            else (Inl (NoSuchContainer i), d))"

text \<open>The runtime reports a container's name with a leading slash.\<close>

definition ContainerCreate :: "create_request \<Rightarrow> docker \<Rightarrow> (error + string) \<times> docker" where
  "ContainerCreate req =
     invoke (Call_ContainerCreate req)
       (\<lambda>d. let i = mkid (next_id d)
            in (Inr i, d\<lparr>containers := \<lparr>ID = i, Names = [''/'' @ cr_Name req], State = ''created'', Config = req\<rparr>
                                          # containers d,
                         next_id := Suc (next_id d)\<rparr>))"

definition ContainerStart :: "string \<Rightarrow> docker \<Rightarrow> (error + unit) \<times> docker" where
  "ContainerStart i =
     invoke (Call_ContainerStart i)
       (\<lambda>d. if \<exists>c \<in> set (containers d). ID c = i
            then (Inr (), d\<lparr>containers := map (set_state i ''running'') (containers d)\<rparr>)
            else (Inl (NoSuchContainer i), d))"

definition CopyToContainer :: "string \<Rightarrow> string \<Rightarrow> string \<Rightarrow> docker \<Rightarrow> (error + unit) \<times> docker" where
  "CopyToContainer i dst content = invoke (Call_CopyToContainer i dst content) (\<lambda>d. (Inr (), d))"

definition ContainerExecCreate :: "string \<Rightarrow> exec_config \<Rightarrow> docker \<Rightarrow> (error + string) \<times> docker" where
  "ContainerExecCreate i cfg =
     invoke (Call_ContainerExecCreate i cfg)
       (\<lambda>d. (Inr (mkid (next_id d)), d\<lparr>next_id := Suc (next_id d)\<rparr>))"

text \<open>Attaching answers with a handle on the session's output stream.\<close>

definition ContainerExecAttach :: "string \<Rightarrow> docker \<Rightarrow> (error + string) \<times> docker" where
  "ContainerExecAttach e = invoke (Call_ContainerExecAttach e) (\<lambda>d. (Inr e, d))"

definition ContainerExecStart :: "string \<Rightarrow> docker \<Rightarrow> (error + unit) \<times> docker" where
  "ContainerExecStart e = invoke (Call_ContainerExecStart e) (\<lambda>d. (Inr (), d))"

definition ContainerExecInspect :: "string \<Rightarrow> docker \<Rightarrow> (error + bool) \<times> docker" where
  "ContainerExecInspect e =
     invoke (Call_ContainerExecInspect e) (\<lambda>d. (Inr (exec_running d (trace d)), d))"

definition ContainerAttach :: "string \<Rightarrow> docker \<Rightarrow> (error + string) \<times> docker" where
  "ContainerAttach i = invoke (Call_ContainerAttach i) (\<lambda>d. (Inr i, d))"

text \<open>\<open>stdcopy.StdCopy\<close>: copying the stream to the standard streams until it closes.\<close>

definition StdCopy :: "string \<Rightarrow> docker \<Rightarrow> (error + unit) \<times> docker" where
  "StdCopy stream = invoke (Call_StdCopy stream) (\<lambda>d. (Inr (), d))"

section \<open>The host and the packages outside the sources\<close>

text \<open>
  \<open>config.Site\<close> is declared outside the sources. The sources read \<open>Hostname\<close>,
  \<open>Aliases\<close>, \<open>Version\<close> and \<open>Dir\<close>; the local path and the environment variables are
  reached only through the methods \<open>GetAbsPath\<close> and \<open>AsEnvs\<close>.
\<close>

record site =
  Hostname :: string
  Aliases :: "string list"
  Version :: string
  Dir :: string
  Path :: string
  Envs :: "(string \<times> string) list"

text \<open>
  What the program reads from its host and from packages that are not among the sources.
  All of it is read-only: none of the fields changes during a run.
  \<^item> \<open>Getenv\<close>, \<open>Getwd\<close>, \<open>filepath_Abs\<close>, \<open>filepath_Join\<close>, \<open>GOOS\<close>: the operating system
    as packages \<open>os\<close> and \<open>path/filepath\<close> show it. A result of \<open>filepath_Abs\<close> has
    gone through \<open>filepath.Clean\<close> and is in the platform's own form (\<open>native\<close>).
  \<^item> \<open>IsFile\<close>: \<open>pathexists.IsFile\<close>.
  \<^item> \<open>GetAbsPath\<close>, \<open>AsEnvs\<close>: the methods of \<open>config.Site\<close>.
  \<^item> \<open>nginx_Generate\<close>, \<open>archive_Generate\<close>: the virtual-host template and the
    single-file archive.
  \<^item> \<open>range_order\<close>: the order in which a \<open>for ... range\<close> over a Go map visits the
    entries, given in the order they were inserted. The language leaves the order open, so
    any permutation is a possible value.
  \<^item> \<open>version_Version\<close>: the constant \<open>version.Version\<close>.
  \<^item> \<open>strings_ToLower\<close>: \<open>strings.ToLower\<close>.
\<close>

record host =
  Getenv :: "string \<Rightarrow> string"
  Getwd :: "error + string"
  filepath_Abs :: "string \<Rightarrow> error + string"
  filepath_Join :: "string \<Rightarrow> string \<Rightarrow> string"
  GOOS :: goos
  IsFile :: "string \<Rightarrow> bool"
  GetAbsPath :: "site \<Rightarrow> string \<Rightarrow> error + string"
  AsEnvs :: "site \<Rightarrow> string \<Rightarrow> string list"
  nginx_Generate :: "string \<Rightarrow> string"
  archive_Generate :: "string \<Rightarrow> string \<Rightarrow> error + string"
  range_order :: "(string \<times> string list) list \<Rightarrow> (string \<times> string list) list"
  version_Version :: string
  strings_ToLower :: "string \<Rightarrow> string"

section \<open>The site container (package \<open>sitecontainer\<close>)\<close>

definition NginxImage :: "string \<Rightarrow> string" where
  \<comment> \<open>\<open>fmt.Sprintf(NginxImage, v)\<close> with \<open>NginxImage = "docker.io/craftcms/nginx:%s-dev"\<close>\<close>
  "NginxImage v = ''docker.io/craftcms/nginx:'' @ v @ ''-dev''"

definition site_extraHosts :: "site \<Rightarrow> string list" where
  "site_extraHosts site =
     (Hostname site @ '':'' @ ''127.0.0.1'') # map (\<lambda>s. s @ '':'' @ ''127.0.0.1'') (Aliases site)"

text \<open>A list of \<open>key<sep>value\<close> entries read as a mapping; a later entry for a key wins.\<close>

definition as_mapping :: "char \<Rightarrow> string list \<Rightarrow> (string \<rightharpoonup> string)" where
  "as_mapping sep xs =
     map_of (rev (map (\<lambda>s. (takeWhile (\<lambda>c. c \<noteq> sep) s, drop 1 (dropWhile (\<lambda>c. c \<noteq> sep) s))) xs))"

text \<open>
  Modelled from the spec: \<open>match.Site\<close>, the Drift Detector, whose package is not among
  the sources. The spec (4.3): a pure comparison of the desired site against the observed
  container over the image reference (exact string equality), the bind-mount source path
  (exact string equality), the environment variables (order-independent equality as a
  mapping) and the extra-host entries derived from hostname and aliases (order-independent
  equality as a mapping); any single mismatch yields "drifted". The result is \<open>True\<close> for
  a match.
\<close>

definition match_Site :: "host \<Rightarrow> string \<Rightarrow> site \<Rightarrow> container \<Rightarrow> bool" where
  "match_Site h home site details =
     (cr_Image (Config details) = NginxImage (Version site)
      \<and> (case GetAbsPath h site home of
            Inl err \<Rightarrow> False
          | Inr path \<Rightarrow>
              map mount_Source (filter (\<lambda>m. mount_Type m = TypeBind) (cr_Mounts (Config details))) = [path])
      \<and> as_mapping CHR ''='' (cr_Env (Config details))
          = as_mapping CHR ''='' (AsEnvs h site ''host.docker.internal'')
      \<and> as_mapping CHR '':'' (cr_ExtraHosts (Config details))
          = as_mapping CHR '':'' (site_extraHosts site))"

text \<open>
  The wait loop of \<open>create\<close>: it polls the exec session until the runtime reports it as
  not running. Nothing bounds the number of rounds, so the loop is a partial function and
  \<open>None\<close> stands for a run that never leaves it.
\<close>

partial_function (option) wait_exec :: "string \<Rightarrow> docker \<Rightarrow> ((error + unit) \<times> docker) option" where
  "wait_exec exec_ID d =
     (case ContainerExecInspect exec_ID d of
        (Inl err, d) \<Rightarrow> Some (Inl err, d)
      | (Inr resp_Running, d) \<Rightarrow>
          if resp_Running then wait_exec exec_ID d else Some (Inr (), d))"

text \<open>
  The loop \<open>for _, c := range commands\<close> of \<open>create\<close>, over the entries in the order the
  iteration visits them.
\<close>

fun run_commands :: "string \<Rightarrow> (string \<times> string list) list \<Rightarrow> docker \<Rightarrow> ((error + unit) \<times> docker) option" where
  "run_commands resp_ID [] d = Some (Inr (), d)"
| "run_commands resp_ID ((k, c) # commands) d =
     (case ContainerExecCreate resp_ID
             \<lparr>exec_User = ''root'', exec_AttachStdout = True, exec_AttachStderr = True,
              exec_Tty = False, exec_Cmd = c\<rparr> d of
        (Inl err, d) \<Rightarrow> Some (Inl err, d)
      | (Inr exec_ID, d) \<Rightarrow>
     (case ContainerExecAttach exec_ID d of
        (Inl err, d) \<Rightarrow> Some (Inl err, d)
      | (Inr attach, d) \<Rightarrow>
     (case StdCopy attach d of
        (Inl err, d) \<Rightarrow> Some (Inl (Errorf ''unable to copy the output of container, '' (Some err)), d)
      | (Inr _, d) \<Rightarrow>
     (case ContainerExecStart exec_ID d of
        (Inl err, d) \<Rightarrow> Some (Inl (Errorf ''unable to start the container, '' (Some err)), d)
      | (Inr _, d) \<Rightarrow>
     (case wait_exec exec_ID d of
        None \<Rightarrow> None
      | Some (Inl err, d) \<Rightarrow> Some (Inl err, d)
      | Some (Inr _, d) \<Rightarrow>
     (case ContainerStart resp_ID d of
        (Inl err, d) \<Rightarrow> Some (Inl (Errorf ''unable to start the container, '' (Some err)), d)
      | (Inr _, d) \<Rightarrow> run_commands resp_ID commands d))))))"

definition site_request :: "string \<Rightarrow> string \<Rightarrow> string \<Rightarrow> string list \<Rightarrow> string list \<Rightarrow> site \<Rightarrow> create_request" where
  "site_request image_ref path networkID extraHosts envs site =
     \<lparr>cr_Image = image_ref,
      cr_Cmd = [],
      cr_Labels = [labels_Nitro \<mapsto> ''true'', labels_Host \<mapsto> Hostname site],
      cr_Env = envs,
      cr_ExposedPorts = {},
      cr_NetworkMode = '''',
      cr_Mounts = [\<lparr>mount_Type = TypeBind, mount_Source = path, mount_Target = ''/app''\<rparr>],
      cr_ExtraHosts = extraHosts,
      cr_PortBindings = Map.empty,
      cr_Endpoints = [''nitro-network'' \<mapsto> networkID],
      cr_Name = Hostname site\<rparr>"

definition nginx_commands :: "(string \<times> string list) list" where
  "nginx_commands =
     [(''copy-nginx-file'', [''cp'', ''/tmp/default.conf'', ''/etc/nginx/conf.d/default.conf'']),
      (''set-nginx-permissions'', [''chmod'', ''0644'', ''/etc/nginx/conf.d/default.conf''])]"

text \<open>
  Lines 143 to 214 of \<open>create\<close>: the post-installation commands. For a document root
  other than \<open>web\<close> the virtual-host file is copied into the container and the two
  commands are entered into the map \<open>commands\<close>; then the loop runs over the map.
\<close>

definition post_install :: "host \<Rightarrow> site \<Rightarrow> string \<Rightarrow> docker \<Rightarrow> ((error + unit) \<times> docker) option" where
  "post_install h site resp_ID d =
     (case (if Dir site \<noteq> ''web''
            then (let conf = nginx_Generate h (Dir site) in
                  case archive_Generate h ''default.conf'' conf of
                    Inl err \<Rightarrow> (Inl err, d)
                  | Inr tr \<Rightarrow>
                 (case CopyToContainer resp_ID ''/tmp'' tr d of
                    (Inl err, d) \<Rightarrow> (Inl err, d)
                  | (Inr _, d) \<Rightarrow> (Inr nginx_commands, d)))
            else (Inr [], d)) of
        (Inl err, d) \<Rightarrow> Some (Inl err, d)
      | (Inr commands, d) \<Rightarrow> run_commands resp_ID (range_order h commands) d)"

text \<open>The request that \<open>create\<close> sends for a site whose local path is \<open>path\<close>.\<close>

definition desired_request :: "host \<Rightarrow> string \<Rightarrow> site \<Rightarrow> string \<Rightarrow> create_request" where
  "desired_request h networkID site path =
     site_request (NginxImage (Version site)) path networkID (site_extraHosts site)
       (AsEnvs h site ''host.docker.internal'') site"

definition create :: "host \<Rightarrow> string \<Rightarrow> string \<Rightarrow> site \<Rightarrow> docker \<Rightarrow> ((error + string) \<times> docker) option" where
  "create h home networkID site d =
     (let image_ref = NginxImage (Version site) in
      case ImagePull image_ref d of
        (Inl err, d) \<Rightarrow> Some (Inl (Errorf ''unable to pull the image, '' (Some err)), d)
      | (Inr rdr, d) \<Rightarrow>
     (case ReadFrom rdr d of
        (Inl err, d) \<Rightarrow>
          Some (Inl (Errorf (''unable to read output from pulling image '' @ image_ref @ '', '') (Some err)), d)
      | (Inr _, d) \<Rightarrow>
     (case GetAbsPath h site home of
        Inl err \<Rightarrow> Some (Inl err, d)
      | Inr path \<Rightarrow>
     (let extraHosts = site_extraHosts site;
          envs = AsEnvs h site ''host.docker.internal'' in
      case ContainerCreate (site_request image_ref path networkID extraHosts envs site) d of
        (Inl err, d) \<Rightarrow> Some (Inl (Errorf ''unable to create the container, '' (Some err)), d)
      | (Inr resp_ID, d) \<Rightarrow>
     (case ContainerStart resp_ID d of
        (Inl err, d) \<Rightarrow> Some (Inl (Errorf ''unable to start the container, '' (Some err)), d)
      | (Inr _, d) \<Rightarrow>
     (case post_install h site resp_ID d of
        None \<Rightarrow> None
      | Some (Inl err, d) \<Rightarrow> Some (Inl err, d)
      | Some (Inr _, d) \<Rightarrow> Some (Inr resp_ID, d)))))))"

definition StartOrCreate :: "host \<Rightarrow> string \<Rightarrow> string \<Rightarrow> site \<Rightarrow> docker \<Rightarrow> ((error + string) \<times> docker) option" where
  "StartOrCreate h home networkID site d =
     (let filters = [Filter_label labels_Host (Hostname site)] in
      case ContainerList True filters d of
        (Inl err, d) \<Rightarrow> Some (Inl (Errorf ''error getting a list of containers'' None), d)
      | (Inr found, d) \<Rightarrow>
     (case found of
        [] \<Rightarrow> create h home networkID site d
      | container # _ \<Rightarrow>
     (case ContainerInspect (ID container) d of
        (Inl err, d) \<Rightarrow> Some (Inl err, d)
      | (Inr details, d) \<Rightarrow>
          if \<not> match_Site h home site details then
            (case ContainerStop (ID container) d of
               (Inl err, d) \<Rightarrow> Some (Inl err, d)
             | (Inr _, d) \<Rightarrow>
            (case ContainerRemove (ID container) d of
               (Inl err, d) \<Rightarrow> Some (Inl err, d)
             | (Inr _, d) \<Rightarrow> create h home networkID site d))
          else Some (Inr (ID container), d))))"

section \<open>Port numbers (library \<open>go-connections/nat\<close>, package \<open>strconv\<close>)\<close>

definition is_digit :: "char \<Rightarrow> bool" where
  "is_digit c = (48 \<le> (of_char c :: nat) \<and> (of_char c :: nat) \<le> 57)"

text \<open>\<open>strconv.ParseUint(s, 10, 16)\<close>: decimal digits only, and a value below \<open>2^16\<close>.\<close>

definition ParseUint16 :: "string \<Rightarrow> error + nat" where
  "ParseUint16 s =
     (if s = [] \<or> \<not> list_all is_digit s then Inl (LibraryError ''invalid syntax'')
      else (let n = foldl (\<lambda>a c. 10 * a + ((of_char c :: nat) - 48)) 0 s
            in if n < 65536 then Inr n else Inl (LibraryError ''value out of range'')))"

text \<open>\<open>%d\<close> of \<open>fmt.Sprintf\<close> for a number that is not negative.\<close>

fun itoa :: "nat \<Rightarrow> string" where
  "itoa n = (if n < 10 then [''0123456789'' ! n] else itoa (n div 10) @ [''0123456789'' ! (n mod 10)])"

declare itoa.simps [simp del]

text \<open>
  \<open>nat.NewPort(proto, port)\<close>, of a library outside the sources: \<open>port\<close> is a decimal
  port number or a range \<open>lo-hi\<close> of two; anything else is an error. (The sources never
  pass the empty string, for which the library answers port 0.)
\<close>

definition ParsePortRange :: "string \<Rightarrow> error + nat \<times> nat" where
  "ParsePortRange ports =
     (if ports = [] then Inr (0, 0)
      else if CHR ''-'' \<notin> set ports then
        (case ParseUint16 ports of Inl err \<Rightarrow> Inl err | Inr start \<Rightarrow> Inr (start, start))
      else
        (let parts = Split ports CHR ''-'' in
         case ParseUint16 (hd parts) of
           Inl err \<Rightarrow> Inl err
         | Inr start \<Rightarrow>
        (case ParseUint16 (hd (tl parts)) of
           Inl err \<Rightarrow> Inl err
         | Inr port_end \<Rightarrow>
             if port_end < start then Inl (LibraryError (''invalid range specified for port: '' @ ports))
             else Inr (start, port_end))))"

definition NewPort :: "string \<Rightarrow> string \<Rightarrow> error + string" where
  "NewPort proto port =
     (case ParsePortRange port of
        Inl err \<Rightarrow> Inl err
      | Inr (portStart, portEnd) \<Rightarrow>
          if portStart = portEnd then Inr (itoa portStart @ ''/'' @ proto)
          else Inr (itoa portStart @ ''-'' @ itoa portEnd @ ''/'' @ proto))"

section \<open>The init command (package \<open>initialize\<close>)\<close>

text \<open>
  Lines 44 to 88 of \<open>RunE\<close>: the network of the environment. The loop keeps the last
  network whose name is the environment's.
\<close>

definition exact_network :: "string \<Rightarrow> network list \<Rightarrow> bool \<times> string" where
  "exact_network env nets =
     foldl (\<lambda>(skipNetwork, networkID) n.
              if network_Name n = env then (True, network_ID n) else (skipNetwork, networkID))
           (False, '''') nets"

definition ensure_network :: "string \<Rightarrow> docker \<Rightarrow> (error + string) \<times> docker" where
  "ensure_network env d =
     (let filters = [Filter_name env] in
      case NetworkList filters d of
        (Inl err, d) \<Rightarrow> (Inl (Errorf ''unable to list the docker networks, '' (Some err)), d)
      | (Inr nets, d) \<Rightarrow>
     (case exact_network env nets of
        (True, networkID) \<Rightarrow> (Inr networkID, d)
      | (False, networkID) \<Rightarrow>
     (case NetworkCreate env ''bridge'' True [labels_Environment \<mapsto> env, labels_Network \<mapsto> env] d of
        (Inl err, d) \<Rightarrow> (Inl (Errorf ''unable to create the network, '' (Some err)), d)
      | (Inr resp_ID, d) \<Rightarrow> (Inr resp_ID, d))))"

text \<open>Lines 90 to 130: the volume of the environment, by the same pattern.\<close>

definition exact_volume :: "string \<Rightarrow> volume list \<Rightarrow> bool \<times> volume option" where
  "exact_volume env vols =
     foldl (\<lambda>(skipVolume, vol) v.
              if volume_Name v = env then (True, Some v) else (skipVolume, vol))
           (False, None) vols"

definition ensure_volume :: "string \<Rightarrow> docker \<Rightarrow> (error + volume option) \<times> docker" where
  "ensure_volume env d =
     (let filters = [Filter_name env] in
      case VolumeList filters d of
        (Inl err, d) \<Rightarrow> (Inl (Errorf ''unable to list volumes, '' (Some err)), d)
      | (Inr vols, d) \<Rightarrow>
     (case exact_volume env vols of
        (True, vol) \<Rightarrow> (Inr vol, d)
      | (False, vol) \<Rightarrow>
     (case VolumeCreate ''local'' env [labels_Environment \<mapsto> env, labels_Volume \<mapsto> env] d of
        (Inl err, d) \<Rightarrow> (Inl (Errorf ''unable to create the volume, '' (Some err)), d)
      | (Inr resp, d) \<Rightarrow> (Inr (Some resp), d))))"

text \<open>Lines 132 to 161: the proxy image is pulled when no local image has its reference.\<close>

definition ensure_proxy_image :: "string \<Rightarrow> docker \<Rightarrow> (error + unit) \<times> docker" where
  "ensure_proxy_image proxyImage d =
     (case ImageList [Filter_reference proxyImage] d of
        (Inl err, d) \<Rightarrow> (Inl (Errorf ''unable to get a list of images, '' (Some err)), d)
      | (Inr imgs, d) \<Rightarrow>
          if length imgs = 0 then
            (case ImagePull proxyImage d of
               (Inl err, d) \<Rightarrow> (Inl (Errorf ''unable to pull the nitro-proxy from docker hub, '' (Some err)), d)
             | (Inr rdr, d) \<Rightarrow>
            (case ReadFrom rdr d of
               (Inl err, d) \<Rightarrow>
                 (Inl (Errorf ''unable to read the output from pulling the image, '' (Some err)), d)
             | (Inr _, d) \<Rightarrow> (Inr (), d)))
          else (Inr (), d))"

text \<open>Lines 163 to 188: an existing proxy container, by label and then by exact name.\<close>

definition exact_proxy :: "string \<Rightarrow> container list \<Rightarrow> string \<times> bool" where
  "exact_proxy env cs =
     foldl (\<lambda>acc c.
              foldl (\<lambda>(containerID, proxyRunning) n.
                       if n = env \<or> n = ''/'' @ env
                       then (ID c, if State c = ''running'' then True else proxyRunning)
                       else (containerID, proxyRunning))
                    acc (Names c))
           ('''', False) cs"

text \<open>
  Lines 195 to 259: the four ports. \<open>checked_port\<close> is the assignment of both results of
  \<open>nat.NewPort\<close> followed by the test of \<open>err\<close>; \<open>unchecked_port\<close> is the assignment that
  drops the error result (\<open>port, _ = nat.NewPort(...)\<close>) followed by the test of \<open>err\<close>,
  which still holds what it held before.
\<close>

definition checked_port :: "string \<Rightarrow> error + string \<Rightarrow> error + string" where
  "checked_port msg r = (case r of Inl err \<Rightarrow> Inl (Errorf msg (Some err)) | Inr port \<Rightarrow> Inr port)"

definition unchecked_port :: "error option \<Rightarrow> string \<Rightarrow> error + string \<Rightarrow> error + string" where
  "unchecked_port err msg r =
     (let port = (case r of Inl _ \<Rightarrow> '''' | Inr port \<Rightarrow> port)
      in case err of Some e \<Rightarrow> Inl (Errorf msg (Some e)) | None \<Rightarrow> Inr port)"

definition resolve_ports :: "host \<Rightarrow> error + (string \<times> string \<times> string \<times> string)" where
  "resolve_ports h =
     (let err = (None :: error option) \<comment> \<open>\<open>err\<close> is \<open>nil\<close> once \<open>ContainerList\<close> has succeeded\<close> in
      case (if Getenv h ''NITRO_HTTP_PORT'' = '''' then
              checked_port ''unable to set the HTTP port, '' (NewPort ''tcp'' ''80'')
            else if Getenv h ''NITRO_HTTP_PORT'' \<noteq> '''' then
              checked_port ''unable to set the HTTP port, '' (NewPort ''tcp'' (Getenv h ''NITRO_HTTP_PORT''))
            else Inr '''') of
        Inl e \<Rightarrow> Inl e
      | Inr httpPort \<Rightarrow>
     (case (if Getenv h ''NITRO_HTTPS_PORT'' = '''' then
              checked_port ''unable to set the HTTPS port, '' (NewPort ''tcp'' ''443'')
            else if Getenv h ''NITRO_HTTPS_PORT'' \<noteq> '''' then
              unchecked_port err ''unable to set the HTTPS port, '' (NewPort ''tcp'' (Getenv h ''NITRO_HTTPS_PORT''))
            else Inr '''') of
        Inl e \<Rightarrow> Inl e
      | Inr httpsPort \<Rightarrow>
     (case (if Getenv h ''NITRO_API_PORT'' = '''' then
              checked_port ''unable to set the API port, '' (NewPort ''tcp'' ''5000'')
            else if Getenv h ''NITRO_API_PORT'' \<noteq> '''' then
              unchecked_port err ''unable to set the API port, '' (NewPort ''tcp'' (Getenv h ''NITRO_API_PORT''))
            else Inr '''') of
        Inl e \<Rightarrow> Inl e
      | Inr apiPort \<Rightarrow>
     (case (if Getenv h ''NITRO_XDEBUG_PORT'' = '''' then
              checked_port ''unable to set the API port, '' (NewPort ''tcp'' ''9003'')
            else if Getenv h ''NITRO_XDEBUG_PORT'' \<noteq> '''' then
              unchecked_port err ''unable to set the xdebug port, '' (NewPort ''tcp'' (Getenv h ''NITRO_XDEBUG_PORT''))
            else Inr '''') of
        Inl e \<Rightarrow> Inl e
      | Inr xdebugPort \<Rightarrow> Inr (httpPort, httpsPort, apiPort, xdebugPort)))))"

definition proxy_request ::
  "string \<Rightarrow> string \<Rightarrow> string \<Rightarrow> string \<Rightarrow> string \<Rightarrow> string \<times> string \<times> string \<times> string \<Rightarrow> create_request" where
  "proxy_request proxyImage version env volume_name networkID ports =
     (case ports of (httpPort, httpsPort, apiPort, xdebugPort) \<Rightarrow>
     \<lparr>cr_Image = proxyImage,
      cr_Cmd = [],
      cr_Labels = [labels_Type \<mapsto> ''proxy'', labels_Environment \<mapsto> env, labels_Proxy \<mapsto> env,
                   labels_ProxyVersion \<mapsto> version],
      cr_Env = [],
      cr_ExposedPorts = {httpPort, httpsPort, apiPort, xdebugPort},
      cr_NetworkMode = ''default'',
      cr_Mounts = [\<lparr>mount_Type = TypeVolume, mount_Source = volume_name, mount_Target = ''/data''\<rparr>],
      cr_ExtraHosts = [],
      cr_PortBindings =
        [httpPort \<mapsto> [\<lparr>HostIP = ''127.0.0.1'', HostPort = ''80''\<rparr>],
         httpsPort \<mapsto> [\<lparr>HostIP = ''127.0.0.1'', HostPort = ''443''\<rparr>],
         apiPort \<mapsto> [\<lparr>HostIP = ''127.0.0.1'', HostPort = ''5000''\<rparr>],
         xdebugPort \<mapsto> [\<lparr>HostIP = ''127.0.0.1'', HostPort = ''9003''\<rparr>]],
      cr_Endpoints = [env \<mapsto> networkID],
      cr_Name = env\<rparr>)"

text \<open>
  Lines 39 to 337: network, volume, image, proxy container, start. \<open>volume\<close> is a
  pointer in the source; it is \<open>None\<close> for \<open>nil\<close>.
\<close>

definition initialize_proxy :: "host \<Rightarrow> string \<Rightarrow> docker \<Rightarrow> (error + unit) \<times> docker" where
  "initialize_proxy h env d =
     (case ensure_network env d of
        (Inl err, d) \<Rightarrow> (Inl err, d)
      | (Inr networkID, d) \<Rightarrow>
     (case ensure_volume env d of
        (Inl err, d) \<Rightarrow> (Inl err, d)
      | (Inr volume, d) \<Rightarrow>
     (let proxyImage = ''craftcms/nitro-proxy:'' @ version_Version h in
      case ensure_proxy_image proxyImage d of
        (Inl err, d) \<Rightarrow> (Inl err, d)
      | (Inr _, d) \<Rightarrow>
     (case ContainerList True [Filter_label labels_Proxy env] d of
        (Inl err, d) \<Rightarrow> (Inl (Errorf (''unable to list the containers'' @ [CHR 0x0A]) (Some err)), d)
      | (Inr cs, d) \<Rightarrow>
     (case exact_proxy env cs of (containerID, proxyRunning) \<Rightarrow>
     (case (if containerID = '''' then
              (case resolve_ports h of
                 Inl err \<Rightarrow> (Inl err, d)
               | Inr ports \<Rightarrow>
              (case volume of
                 None \<Rightarrow> (Inl (Panic ''nil pointer dereference''), d)
               | Some v \<Rightarrow>
              (case ContainerCreate
                      (proxy_request proxyImage (version_Version h) env (volume_Name v) networkID ports) d of
                 (Inl err, d) \<Rightarrow>
                   (Inl (Errorf (''unable to create the container from image '' @ proxyImage @ [CHR 0x0A])
                           (Some err)), d)
               | (Inr resp_ID, d) \<Rightarrow> (Inr resp_ID, d))))
            else (Inr containerID, d)) of
        (Inl err, d) \<Rightarrow> (Inl err, d)
      | (Inr containerID, d) \<Rightarrow>
          if \<not> proxyRunning then
            (case ContainerStart containerID d of
               (Inl err, d) \<Rightarrow> (Inl (Errorf ''unable to start the nitro container, '' (Some err)), d)
             | (Inr _, d) \<Rightarrow> (Inr (), d))
          else (Inr (), d)))))))"

text \<open>
  Lines 339 to 367: unless skipped, the \<open>apply\<close> and \<open>trust\<close> commands of the parent
  command run next. They are outside the sources and may not return; they are taken as
  they come, each with its \<open>Use\<close> text.
\<close>

record init_cmd =
  flag_environment :: string
  flag_skip_apply :: string
  Parent :: "(string \<times> (string list \<Rightarrow> docker \<Rightarrow> ((error + unit) \<times> docker) option)) list option"

definition ParseBool :: "string \<Rightarrow> bool" where
  \<comment> \<open>\<open>strconv.ParseBool\<close>; on an error its value is \<open>false\<close>, and the source ignores the error\<close>
  "ParseBool s = (s \<in> {''1'', ''t'', ''T'', ''TRUE'', ''true'', ''True''})"

fun run_commands_of_parent ::
  "(string \<times> (string list \<Rightarrow> docker \<Rightarrow> ((error + unit) \<times> docker) option)) list
   \<Rightarrow> string list \<Rightarrow> docker \<Rightarrow> ((error + unit) \<times> docker) option" where
  "run_commands_of_parent [] args d = Some (Inr (), d)"
| "run_commands_of_parent ((c_Use, c_RunE) # cs) args d =
     (case (if c_Use = ''apply'' then c_RunE args d else Some (Inr (), d)) of
        None \<Rightarrow> None
      | Some (Inl err, d) \<Rightarrow> Some (Inl err, d)
      | Some (Inr _, d) \<Rightarrow>
     (case (if c_Use = ''trust'' then c_RunE args d else Some (Inr (), d)) of
        None \<Rightarrow> None
      | Some (Inl err, d) \<Rightarrow> Some (Inl err, d)
      | Some (Inr _, d) \<Rightarrow> run_commands_of_parent cs args d))"

definition initialize_RunE :: "host \<Rightarrow> init_cmd \<Rightarrow> string list \<Rightarrow> docker \<Rightarrow> ((error + unit) \<times> docker) option" where
  "initialize_RunE h cmd args d =
     (case initialize_proxy h (flag_environment cmd) d of
        (Inl err, d) \<Rightarrow> Some (Inl err, d)
      | (Inr _, d) \<Rightarrow>
     (let skipApply = ParseBool (flag_skip_apply cmd) in
      case Parent cmd of
        Some cs \<Rightarrow> if skipApply \<noteq> True then run_commands_of_parent cs args d else Some (Inr (), d)
      | None \<Rightarrow> Some (Inr (), d)))"

section \<open>The cache-volume name (composer command, function \<open>name\<close>)\<close>

text \<open>
  Lines 234 to 249. The function reads the platform's separator and calls
  \<open>strings.ToLower\<close>, both of the host.
\<close>

definition name :: "host \<Rightarrow> string \<Rightarrow> string \<Rightarrow> string" where
  "name h path version =
     (let n = path @ ''_'' @ ''composer'' @ ''_'' @ version;
          n = strings_ToLower h n;
          n = Replace n (PathSeparator (GOOS h)) ''_'';
          n = Replace n CHR '':'' ''_''
      in TrimLeft n ''_'')"


section \<open>The composer command (package \<open>composer\<close>)\<close>

text \<open>
  The loop over the arguments that takes the composer version out of them. \<open>args[i+1]\<close>
  is the head of the arguments that follow; with none left the index is out of range.
  After \<open>--composer-version\<close> the loop goes on with the next argument, the version
  itself, which is then appended like any other.
\<close>

fun take_version :: "string list \<Rightarrow> string \<Rightarrow> string list \<Rightarrow> error + (string \<times> string list)" where
  "take_version [] version newArgs = Inr (version, newArgs)"
| "take_version (a # rest) version newArgs =
     (if Contains a ''--composer-version='' then take_version rest (last (Split a CHR ''='')) newArgs
      else if a = ''--composer-version'' then
        (case rest of
           [] \<Rightarrow> Inl (Panic ''index out of range'')
         | v # _ \<Rightarrow> take_version rest v newArgs)
      else take_version rest version (newArgs @ [a]))"

record composer_options =
  opt_Image :: string
  opt_Commands :: "string list"
  opt_Labels :: "label_key \<rightharpoonup> string"
  opt_Volume :: volume
  opt_Path :: string

definition zero_volume :: volume where
  \<comment> \<open>the zero value of \<open>types.Volume\<close>\<close>
  "zero_volume = \<lparr>volume_Name = '''', volume_Driver = '''', volume_Labels = Map.empty\<rparr>"

text \<open>
  Modelled from the spec: the request of \<open>composer.CreateContainer\<close>, whose package is not
  among the sources. The spec (4.6): create a disposable container mounting the working directory and
  the cache volume, with identity labels, and the caller-supplied command line as its
  arguments. The mount targets are not given by the spec; the working directory is put at
  \<open>/app\<close> and the cache volume at \<open>/tmp\<close>.
\<close>

definition composer_request :: "composer_options \<Rightarrow> create_request" where
  "composer_request opts =
     \<lparr>cr_Image = opt_Image opts,
      cr_Cmd = opt_Commands opts,
      cr_Labels = opt_Labels opts,
      cr_Env = [],
      cr_ExposedPorts = {},
      cr_NetworkMode = '''',
      cr_Mounts = [\<lparr>mount_Type = TypeVolume, mount_Source = volume_Name (opt_Volume opts), mount_Target = ''/tmp''\<rparr>,
                   \<lparr>mount_Type = TypeBind, mount_Source = opt_Path opts, mount_Target = ''/app''\<rparr>],
      cr_ExtraHosts = [],
      cr_PortBindings = Map.empty,
      cr_Endpoints = Map.empty,
      cr_Name = ''''\<rparr>"

text \<open>
  Modelled from the spec: \<open>composer.CreateContainer\<close>, whose package is not among the
  sources, sends the one create call for the request above.
\<close>

definition CreateContainer :: "composer_options \<Rightarrow> docker \<Rightarrow> (error + string) \<times> docker" where
  "CreateContainer opts d = ContainerCreate (composer_request opts) d"

definition default_version :: "string \<Rightarrow> string" where
  \<comment> \<open>lines 68 to 71: the version is \<open>2\<close> unless the arguments set one\<close>
  "default_version version = (if version = '''' then ''2'' else version)"

definition composer_image :: "string \<Rightarrow> string" where
  \<comment> \<open>\<open>fmt.Sprintf("docker.io/library/%s:%s", "composer", version)\<close>\<close>
  "composer_image version = ''docker.io/library/'' @ ''composer'' @ '':'' @ version"

definition cache_filters :: "string \<Rightarrow> filter_arg list" where
  \<comment> \<open>lines 142 to 144: the two label filters of the cache-volume query\<close>
  "cache_filters path = [Filter_label labels_Type ''composer'', Filter_label labels_Path path]"

text \<open>Lines 114 to 140: the composer image is pulled when no local image has its reference.\<close>

definition pull_if_absent :: "string \<Rightarrow> docker \<Rightarrow> (error + unit) \<times> docker" where
  "pull_if_absent image_ref d =
     (case ImageList [Filter_reference image_ref] d of
        (Inl err, d) \<Rightarrow> (Inl (Errorf ''unable to get a list of images, '' (Some err)), d)
      | (Inr imgs, d) \<Rightarrow>
          if length imgs = 0 then
            (case ImagePull image_ref d of
               (Inl err, d) \<Rightarrow> (Inl (Errorf ''unable to pull the docker image, '' (Some err)), d)
             | (Inr rdr, d) \<Rightarrow>
            (case ReadFrom rdr d of
               (Inl err, d) \<Rightarrow>
                 (Inl (Errorf ''unable to read the output from pulling the image, '' (Some err)), d)
             | (Inr _, d) \<Rightarrow> (Inr (), d)))
          else (Inr (), d))"

text \<open>Lines 142 to 174: the cache volume; the \<open>switch\<close> has the cases 1 and 0 only.\<close>

definition cache_volume :: "host \<Rightarrow> string \<Rightarrow> string \<Rightarrow> docker \<Rightarrow> (error + volume) \<times> docker" where
  "cache_volume h path version d =
     (case VolumeList (cache_filters path) d of
        (Inl err, d) \<Rightarrow> (Inl err, d)
      | (Inr vols, d) \<Rightarrow>
     (let volumeName = name h path version;
          pathVolume = zero_volume in
      if length vols = 1 then (Inr (hd vols), d)
      else if length vols = 0 then
        (case VolumeCreate ''local'' volumeName [labels_Type \<mapsto> ''composer'', labels_Path \<mapsto> path] d of
           (Inl err, d) \<Rightarrow> (Inl (Errorf ''unable to create the volume, '' (Some err)), d)
         | (Inr volume, d) \<Rightarrow> (Inr volume, d))
      else (Inr pathVolume, d)))"

text \<open>Lines 189 to 224: create, attach, start, stream, remove.\<close>

definition run_container :: "composer_options \<Rightarrow> docker \<Rightarrow> (error + unit) \<times> docker" where
  "run_container opts d =
     (case CreateContainer opts d of
        (Inl err, d) \<Rightarrow> (Inl (Errorf (''unable to create the composer container'' @ [CHR 0x0A]) (Some err)), d)
      | (Inr container_ID, d) \<Rightarrow>
     (case ContainerAttach container_ID d of
        (Inl err, d) \<Rightarrow> (Inl (Errorf ''unable to attach to container, '' (Some err)), d)
      | (Inr stream, d) \<Rightarrow>
     (case ContainerStart container_ID d of
        (Inl err, d) \<Rightarrow> (Inl (Errorf ''unable to start the container, '' (Some err)), d)
      | (Inr _, d) \<Rightarrow>
     (case StdCopy stream d of
        (Inl err, d) \<Rightarrow> (Inl (Errorf ''unable to copy the output of the container logs, '' (Some err)), d)
      | (Inr _, d) \<Rightarrow>
     (case ContainerRemove container_ID d of
        (Inl err, d) \<Rightarrow> (Inl err, d)
      | (Inr _, d) \<Rightarrow> (Inr (), d))))))"

text \<open>The options that lines 176 to 187 build for \<open>composer.CreateContainer\<close>.\<close>

definition composer_opts :: "string \<Rightarrow> string list \<Rightarrow> string \<Rightarrow> volume \<Rightarrow> composer_options" where
  "composer_opts image_ref args path pathVolume =
     \<lparr>opt_Image = image_ref,
      opt_Commands = args,
      opt_Labels = [labels_Nitro \<mapsto> ''true'', labels_Type \<mapsto> ''composer'', labels_Path \<mapsto> path],
      opt_Volume = pathVolume,
      opt_Path = path\<rparr>"

definition composer_RunE :: "host \<Rightarrow> string list \<Rightarrow> docker \<Rightarrow> (error + unit) \<times> docker" where
  "composer_RunE h args d =
     (case take_version args '''' [] of
        Inl err \<Rightarrow> (Inl err, d)
      | Inr (version, newArgs) \<Rightarrow>
     (let version = default_version version;
          args = newArgs in
      case Getwd h of
        Inl err \<Rightarrow> (Inl (Errorf ''unable to get the current directory, '' (Some err)), d)
      | Inr wd \<Rightarrow>
     (case filepath_Abs h wd of
        Inl err \<Rightarrow> (Inl (Errorf ''unable to find the absolute path, '' (Some err)), d)
      | Inr path \<Rightarrow>
     (case args of
        [] \<Rightarrow> (Inl (Panic ''index out of range''), d)
      | action # _ \<Rightarrow>
          if action \<noteq> ''create-project'' \<and> \<not> IsFile h (filepath_Join h path ''composer.json'') then
            (Inl (Errorf (''unable to find file '' @ filepath_Join h path ''composer.json'') None), d)
          else
     (let image_ref = composer_image version in
      case pull_if_absent image_ref d of
        (Inl err, d) \<Rightarrow> (Inl err, d)
      | (Inr _, d) \<Rightarrow>
     (case cache_volume h path version d of
        (Inl err, d) \<Rightarrow> (Inl err, d)
      | (Inr pathVolume, d) \<Rightarrow> run_container (composer_opts image_ref args path pathVolume) d))))))"

section \<open>Reading the log\<close>

text \<open>The calls that create, stop or remove a container.\<close>

fun lifecycle :: "call \<Rightarrow> bool" where
  "lifecycle (Call_ContainerCreate req) = True"
| "lifecycle (Call_ContainerStop i) = True"
| "lifecycle (Call_ContainerRemove i) = True"
| "lifecycle _ = False"

fun created_requests :: "call list \<Rightarrow> create_request list" where
  "created_requests [] = []"
| "created_requests (Call_ContainerCreate req # cs) = req # created_requests cs"
| "created_requests (_ # cs) = created_requests cs"

fun exec_commands :: "call list \<Rightarrow> string list list" where
  "exec_commands [] = []"
| "exec_commands (Call_ContainerExecCreate i cfg # cs) = exec_Cmd cfg # exec_commands cs"
| "exec_commands (_ # cs) = exec_commands cs"

text \<open>
  What the runtime answers to the fuzzy name query for an environment, and the results
  among them whose name is the environment's, letter for letter.
\<close>

definition network_query :: "string \<Rightarrow> docker \<Rightarrow> network list" where
  "network_query env d = filter (\<lambda>n. network_matches n (Filter_name env)) (networks d)"

definition exact_networks :: "string \<Rightarrow> docker \<Rightarrow> network list" where
  "exact_networks env d = filter (\<lambda>n. network_Name n = env) (network_query env d)"

definition volume_query :: "string \<Rightarrow> docker \<Rightarrow> volume list" where
  "volume_query env d = filter (\<lambda>v. volume_matches v (Filter_name env)) (volumes d)"

definition exact_volumes :: "string \<Rightarrow> docker \<Rightarrow> volume list" where
  "exact_volumes env d = filter (\<lambda>v. volume_Name v = env) (volume_query env d)"

text \<open>
  The calls of a task run that nothing interrupts, in order; the runtime gives the task
  container the identifier \<open>mkid (next_id d)\<close>.
\<close>

definition task_calls :: "composer_options \<Rightarrow> docker \<Rightarrow> call list" where
  "task_calls opts d =
     (let i = mkid (next_id d)
      in [Call_ContainerCreate (composer_request opts), Call_ContainerAttach i, Call_ContainerStart i,
          Call_StdCopy i, Call_ContainerRemove i])"

fun is_VolumeCreate :: "call \<Rightarrow> bool" where
  "is_VolumeCreate (Call_VolumeCreate driver nm ls) = True"
| "is_VolumeCreate _ = False"

text \<open>A container without its run state.\<close>

definition stateless :: "container \<Rightarrow> container" where
  "stateless c = c\<lparr>State := ''''\<rparr>"

text \<open>
  \<open>quiet d d'\<close>: from \<open>d\<close> to \<open>d'\<close> the program has sent no call that creates, stops or
  removes a container, and the containers are the same up to their run state.
\<close>

definition quiet :: "docker \<Rightarrow> docker \<Rightarrow> bool" where
  "quiet d d' =
     (fails d' = fails d \<and> exec_running d' = exec_running d
      \<and> map stateless (containers d') = map stateless (containers d)
      \<and> (\<exists>t. trace d' = trace d @ t \<and> filter lifecycle t = []))"

text \<open>
  \<open>settled h home site i d\<close>: in the runtime \<open>d\<close> the first container that carries the
  site's hostname label has the identifier \<open>i\<close>, and the container that the runtime
  shows for \<open>i\<close> matches the site.
\<close>

definition settled :: "host \<Rightarrow> string \<Rightarrow> site \<Rightarrow> string \<Rightarrow> docker \<Rightarrow> bool" where
  "settled h home site i d =
     ((\<exists>c rest. filter (\<lambda>c. container_matches c (Filter_label labels_Host (Hostname site))) (containers d)
                  = c # rest \<and> ID c = i)
      \<and> (\<exists>details. find (\<lambda>c. ID c = i) (containers d) = Some details \<and> match_Site h home site details))"

text \<open>
  \<open>finishes_by n d\<close>: the runtime answers every call, and it reports every exec session
  as finished once its log holds \<open>n\<close> calls. \<open>present i d\<close>: the runtime holds a container
  with the identifier \<open>i\<close>.
\<close>

definition finishes_by :: "nat \<Rightarrow> docker \<Rightarrow> bool" where
  "finishes_by n d = ((\<forall>t. \<not> fails d t) \<and> (\<forall>t. n \<le> length t \<longrightarrow> \<not> exec_running d t))"

definition present :: "string \<Rightarrow> docker \<Rightarrow> bool" where
  "present i d = (\<exists>c \<in> set (containers d). ID c = i)"

section \<open>Example inputs\<close>

text \<open>A runtime that holds nothing, answers every call and reports every exec session as finished.\<close>

definition empty_runtime :: docker where
  "empty_runtime =
     \<lparr>containers = [], networks = [], volumes = [], images = [], next_id = 0, trace = [],
      fails = (\<lambda>_. False), exec_running = (\<lambda>_. False)\<rparr>"

text \<open>
  A host on Unix with no environment variable set, the working directory \<open>/srv/app\<close>
  holding a \<open>composer.json\<close>, a map iteration that happens to follow the insertion
  order, and the ASCII case mapping for \<open>strings.ToLower\<close>.
\<close>

definition example_host :: host where
  "example_host =
     \<lparr>Getenv = (\<lambda>_. ''''), Getwd = Inr ''/srv/app'', filepath_Abs = Inr,
      filepath_Join = (\<lambda>a b. a @ ''/'' @ b), GOOS = Unix,
      IsFile = (\<lambda>p. p = ''/srv/app/composer.json''),
      GetAbsPath = (\<lambda>s home. Inr (Path s)),
      AsEnvs = (\<lambda>s addr. map (\<lambda>(k, v). k @ ''='' @ v) (Envs s) @ [''HOST_ADDRESS='' @ addr]),
      nginx_Generate = (\<lambda>dir. ''root /app/'' @ dir), archive_Generate = (\<lambda>n content. Inr content),
      range_order = (\<lambda>commands. commands), version_Version = ''2.0.0'',
      strings_ToLower = ascii_ToLower\<rparr>"

text \<open>The site of scenario B of the spec: \<open>example.test\<close> served from \<open>public\<close>.\<close>

definition example_site :: site where
  "example_site =
     \<lparr>Hostname = ''example.test'', Aliases = [], Version = ''7.4'', Dir = ''public'',
      Path = ''/srv/app'', Envs = []\<rparr>"

text \<open>The search results of the spec's exact-match guard: networks \<open>dev-host\<close> and \<open>dev\<close>.\<close>

definition dev_runtime :: docker where
  "dev_runtime =
     empty_runtime
       \<lparr>networks := [\<lparr>network_ID = ''n2'', network_Name = ''dev-host'', network_Labels = Map.empty\<rparr>,
                     \<lparr>network_ID = ''n1'', network_Name = ''dev'', network_Labels = Map.empty\<rparr>],
        volumes := [\<lparr>volume_Name = ''dev-host'', volume_Driver = ''local'', volume_Labels = Map.empty\<rparr>],
        next_id := 2\<rparr>"

text \<open>A runtime with the composer image and two cache volumes labelled for \<open>/srv/app\<close>.\<close>

definition two_caches_runtime :: docker where
  "two_caches_runtime =
     empty_runtime
       \<lparr>images := [''docker.io/library/composer:2''],
        volumes := [\<lparr>volume_Name = ''cache_b'', volume_Driver = ''local'',
                      volume_Labels = [labels_Type \<mapsto> ''composer'', labels_Path \<mapsto> ''/srv/app'']\<rparr>,
                    \<lparr>volume_Name = ''cache_a'', volume_Driver = ''local'',
                      volume_Labels = [labels_Type \<mapsto> ''composer'', labels_Path \<mapsto> ''/srv/app'']\<rparr>]\<rparr>"

text \<open>A Windows host whose working directory is \<open>C:\App\<close>.\<close>

definition windows_host :: host where
  "windows_host =
     example_host
       \<lparr>Getwd := Inr [CHR ''C'', CHR '':'', CHR 0x5C, CHR ''A'', CHR ''p'', CHR ''p''],
        filepath_Join := (\<lambda>a b. a @ [CHR 0x5C] @ b), GOOS := Windows,
        IsFile := (\<lambda>p. p = [CHR ''C'', CHR '':'', CHR 0x5C, CHR ''A'', CHR ''p'', CHR ''p'', CHR 0x5C] @ ''composer.json'')\<rparr>"

text \<open>The options of \<open>composer install\<close> in \<open>/srv/app\<close> with a cache volume \<open>cache_a\<close>.\<close>

definition example_opts :: composer_options where
  "example_opts =
     composer_opts ''docker.io/library/composer:2'' [''install''] ''/srv/app''
       \<lparr>volume_Name = ''cache_a'', volume_Driver = ''local'', volume_Labels = Map.empty\<rparr>"

text \<open>The runtime that the first reconciliation of the example site leaves.\<close>

definition settled_runtime :: docker where
  "settled_runtime =
     (case StartOrCreate example_host ''/home/user'' ''n1'' example_site empty_runtime of
        Some (r, d) \<Rightarrow> d
      | None \<Rightarrow> empty_runtime)"

text \<open>
  A running container of the example site that was created for PHP 7.3, while the site
  asks for 7.4, and a runtime that holds it; and the runtime that the reconciliation of
  the example site makes of that runtime.
\<close>

definition old_container :: container where
  "old_container =
     \<lparr>ID = ''old'', Names = [''/example.test''], State = ''running'',
      Config = desired_request example_host ''n1'' (example_site\<lparr>Version := ''7.3''\<rparr>) ''/srv/app''\<rparr>"

definition drifted_runtime :: docker where
  "drifted_runtime = empty_runtime\<lparr>containers := [old_container], next_id := 3\<rparr>"

definition rebuilt_runtime :: docker where
  "rebuilt_runtime =
     (case StartOrCreate example_host ''/home/user'' ''n1'' example_site drifted_runtime of
        Some (r, d) \<Rightarrow> d
      | None \<Rightarrow> drifted_runtime)"

section \<open>Properties of the cache-volume name\<close>

lemma lower_char_adds_32: "is_upper c \<Longrightarrow> (of_char (lower_char c) :: nat) = of_char c + 32"
  by (cases c) (auto simp: is_upper_def of_bool_def split: if_splits)

lemma lower_char_not_upper: "\<not> is_upper (lower_char c)"
  by (cases c) (auto simp: is_upper_def of_bool_def split: if_splits)

lemma lower_char_fix: "\<not> is_upper c \<Longrightarrow> lower_char c = c"
  by (cases c) simp









text \<open>
  \<open>filepath.FromSlash\<close> leaves a path in the platform's own form, so every result of
  \<open>filepath.Clean\<close> and of \<open>filepath.Abs\<close> is in that form.
\<close>

lemma native_FromSlash: "native os (FromSlash os p)"
  by (cases os) (auto simp: native_def FromSlash_def IsPathSeparator_def PathSeparator_def)

text \<open>
  The form matters on Windows, where \<open>name\<close> itself rewrites the backslash and leaves the
  slash: \<open>C:/app\<close>, which \<open>filepath.Abs\<close> never returns, would keep its slash.
\<close>

lemma name_keeps_slash_on_Windows:
  "name windows_host ''C:/app'' ''2'' = ''c_/app_composer_2''"
  by (simp add: name_def windows_host_def example_host_def ascii_ToLower_def Replace_def
      TrimLeft_def PathSeparator_def is_upper_def)




section \<open>The reconciler of networks and volumes\<close>

lemma Contains_refl: "Contains s s"
  by (cases s) simp_all

lemma exact_network_snoc:
  "exact_network env (nets @ [n]) =
     (if network_Name n = env then (True, network_ID n) else exact_network env nets)"
  by (simp add: exact_network_def split: prod.splits)

lemma exact_network_eq:
  "exact_network env nets =
     (case filter (\<lambda>n. network_Name n = env) nets of
        [] \<Rightarrow> (False, '''')
      | m # ms \<Rightarrow> (True, network_ID (last (m # ms))))"
proof (induction nets rule: rev_induct)
  case Nil
  show ?case by (simp add: exact_network_def)
next
  case (snoc n nets)
  show ?case
    unfolding exact_network_snoc using snoc
    by (auto split: list.splits)
qed

lemma exact_volume_snoc:
  "exact_volume env (vols @ [v]) =
     (if volume_Name v = env then (True, Some v) else exact_volume env vols)"
  by (simp add: exact_volume_def split: prod.splits)

lemma exact_volume_eq:
  "exact_volume env vols =
     (case filter (\<lambda>v. volume_Name v = env) vols of
        [] \<Rightarrow> (False, None)
      | m # ms \<Rightarrow> (True, Some (last (m # ms))))"
proof (induction vols rule: rev_induct)
  case Nil
  show ?case by (simp add: exact_volume_def)
next
  case (snoc v vols)
  show ?case
    unfolding exact_volume_snoc using snoc
    by (auto split: list.splits)
qed


lemma ensure_network_found:
  assumes "\<not> fails d (trace d @ [Call_NetworkList [Filter_name env]])"
      and "exact_networks env d \<noteq> []"
  shows "ensure_network env d =
           (Inr (network_ID (last (exact_networks env d))),
            d\<lparr>trace := trace d @ [Call_NetworkList [Filter_name env]]\<rparr>)"
  using assms
  by (simp add: ensure_network_def NetworkList_def invoke_def exact_network_eq
        exact_networks_def network_query_def split: list.splits)

lemma ensure_network_absent:
  assumes "\<not> fails d (trace d @ [Call_NetworkList [Filter_name env]])"
      and "exact_networks env d = []"
  shows "ensure_network env d =
           (let ls = [labels_Environment \<mapsto> env, labels_Network \<mapsto> env];
                t = trace d @ [Call_NetworkList [Filter_name env], Call_NetworkCreate env ''bridge'' True ls]
            in if fails d t
               then (Inl (Errorf ''unable to create the network, ''
                            (Some (DockerError (Call_NetworkCreate env ''bridge'' True ls)))),
                     d\<lparr>trace := t\<rparr>)
               else (Inr (mkid (next_id d)),
                     d\<lparr>trace := t,
                       networks := \<lparr>network_ID = mkid (next_id d), network_Name = env, network_Labels = ls\<rparr>
                                   # networks d,
                       next_id := Suc (next_id d)\<rparr>))"
  using assms
  by (simp add: ensure_network_def NetworkList_def NetworkCreate_def invoke_def exact_network_eq
        exact_networks_def network_query_def Let_def split: list.splits)

lemma ensure_volume_found:
  assumes "\<not> fails d (trace d @ [Call_VolumeList [Filter_name env]])"
      and "exact_volumes env d \<noteq> []"
  shows "ensure_volume env d =
           (Inr (Some (last (exact_volumes env d))),
            d\<lparr>trace := trace d @ [Call_VolumeList [Filter_name env]]\<rparr>)"
  using assms
  by (simp add: ensure_volume_def VolumeList_def invoke_def exact_volume_eq
        exact_volumes_def volume_query_def split: list.splits)

lemma ensure_volume_absent:
  assumes "\<not> fails d (trace d @ [Call_VolumeList [Filter_name env]])"
      and "exact_volumes env d = []"
  shows "ensure_volume env d =
           (let ls = [labels_Environment \<mapsto> env, labels_Volume \<mapsto> env];
                t = trace d @ [Call_VolumeList [Filter_name env], Call_VolumeCreate ''local'' env ls];
                v = \<lparr>volume_Name = env, volume_Driver = ''local'', volume_Labels = ls\<rparr>
            in if fails d t
               then (Inl (Errorf ''unable to create the volume, ''
                            (Some (DockerError (Call_VolumeCreate ''local'' env ls)))),
                     d\<lparr>trace := t\<rparr>)
               else (Inr (Some v), d\<lparr>trace := t, volumes := v # volumes d\<rparr>))"
  using assms
  by (simp add: ensure_volume_def VolumeList_def VolumeCreate_def invoke_def exact_volume_eq
        exact_volumes_def volume_query_def Let_def split: list.splits)

text \<open>
  C4. The reconciler of networks and volumes (\<open>ensure_network\<close>, \<open>ensure_volume\<close>), for
  every environment name and every runtime whose listing is answered. Among the results of
  the fuzzy query only those named exactly like the environment count
  (\<open>exact_networks\<close>, \<open>exact_volumes\<close>). If there is one, the reconciler returns it (the
  last of them, by its id for a network) and sends nothing but the listing: nothing is
  created. If there is none, whatever else the query returned, it sends one create call
  for the environment's name with the identity labels and, unless the runtime fails that
  call, returns the new resource.
\<close>

theorem ensure_exact_match:
  assumes "\<not> fails d (trace d @ [Call_NetworkList [Filter_name env]])"
      and "\<not> fails d (trace d @ [Call_VolumeList [Filter_name env]])"
  shows "(exact_networks env d \<noteq> [] \<longrightarrow>
            network_Name (last (exact_networks env d)) = env
            \<and> ensure_network env d =
                (Inr (network_ID (last (exact_networks env d))),
                 d\<lparr>trace := trace d @ [Call_NetworkList [Filter_name env]]\<rparr>))
       \<and> (exact_networks env d = [] \<longrightarrow>
            ensure_network env d =
              (let ls = [labels_Environment \<mapsto> env, labels_Network \<mapsto> env];
                   t = trace d @ [Call_NetworkList [Filter_name env], Call_NetworkCreate env ''bridge'' True ls]
               in if fails d t
                  then (Inl (Errorf ''unable to create the network, ''
                               (Some (DockerError (Call_NetworkCreate env ''bridge'' True ls)))),
                        d\<lparr>trace := t\<rparr>)
                  else (Inr (mkid (next_id d)),
                        d\<lparr>trace := t,
                          networks := \<lparr>network_ID = mkid (next_id d), network_Name = env, network_Labels = ls\<rparr>
                                      # networks d,
                          next_id := Suc (next_id d)\<rparr>)))
       \<and> (exact_volumes env d \<noteq> [] \<longrightarrow>
            volume_Name (last (exact_volumes env d)) = env
            \<and> ensure_volume env d =
                (Inr (Some (last (exact_volumes env d))),
                 d\<lparr>trace := trace d @ [Call_VolumeList [Filter_name env]]\<rparr>))
       \<and> (exact_volumes env d = [] \<longrightarrow>
            ensure_volume env d =
              (let ls = [labels_Environment \<mapsto> env, labels_Volume \<mapsto> env];
                   t = trace d @ [Call_VolumeList [Filter_name env], Call_VolumeCreate ''local'' env ls];
                   v = \<lparr>volume_Name = env, volume_Driver = ''local'', volume_Labels = ls\<rparr>
               in if fails d t
                  then (Inl (Errorf ''unable to create the volume, ''
                               (Some (DockerError (Call_VolumeCreate ''local'' env ls)))),
                        d\<lparr>trace := t\<rparr>)
                  else (Inr (Some v), d\<lparr>trace := t, volumes := v # volumes d\<rparr>)))"
proof -
  have n: "exact_networks env d \<noteq> [] \<Longrightarrow> network_Name (last (exact_networks env d)) = env"
    using last_in_set[of "exact_networks env d"] by (auto simp: exact_networks_def)
  have v: "exact_volumes env d \<noteq> [] \<Longrightarrow> volume_Name (last (exact_volumes env d)) = env"
    using last_in_set[of "exact_volumes env d"] by (auto simp: exact_volumes_def)
  show ?thesis
    using n v ensure_network_found[OF assms(1)] ensure_network_absent[OF assms(1)]
      ensure_volume_found[OF assms(2)] ensure_volume_absent[OF assms(2)]
    by blast
qed

theorem ensure_exact_match_witness:
  "\<not> fails dev_runtime (trace dev_runtime @ [Call_NetworkList [Filter_name ''dev'']])
   \<and> \<not> fails dev_runtime (trace dev_runtime @ [Call_VolumeList [Filter_name ''dev'']])
   \<and> map network_Name (network_query ''dev'' dev_runtime) = [''dev-host'', ''dev'']
   \<and> map network_Name (exact_networks ''dev'' dev_runtime) = [''dev'']
   \<and> fst (ensure_network ''dev'' dev_runtime) = Inr ''n1''
   \<and> networks (snd (ensure_network ''dev'' dev_runtime)) = networks dev_runtime
   \<and> map volume_Name (volume_query ''dev'' dev_runtime) = [''dev-host'']
   \<and> exact_volumes ''dev'' dev_runtime = []
   \<and> map volume_Name (volumes (snd (ensure_volume ''dev'' dev_runtime))) = [''dev'', ''dev-host'']"
proof -
  have h1: "\<not> fails dev_runtime (trace dev_runtime @ [Call_NetworkList [Filter_name ''dev'']])"
    by (simp add: dev_runtime_def empty_runtime_def)
  have h2: "\<not> fails dev_runtime (trace dev_runtime @ [Call_VolumeList [Filter_name ''dev'']])"
    by (simp add: dev_runtime_def empty_runtime_def)
  have q: "map network_Name (network_query ''dev'' dev_runtime) = [''dev-host'', ''dev'']"
    by (simp add: network_query_def dev_runtime_def empty_runtime_def)
  have e: "exact_networks ''dev'' dev_runtime
             = [\<lparr>network_ID = ''n1'', network_Name = ''dev'', network_Labels = Map.empty\<rparr>]"
    by (simp add: exact_networks_def network_query_def dev_runtime_def empty_runtime_def)
  have vq: "map volume_Name (volume_query ''dev'' dev_runtime) = [''dev-host'']"
    by (simp add: volume_query_def dev_runtime_def empty_runtime_def)
  have ve: "exact_volumes ''dev'' dev_runtime = []"
    by (simp add: exact_volumes_def volume_query_def dev_runtime_def empty_runtime_def)
  have f: "\<not> fails dev_runtime t" for t
    by (simp add: dev_runtime_def empty_runtime_def)
  have vs: "volumes dev_runtime
              = [\<lparr>volume_Name = ''dev-host'', volume_Driver = ''local'', volume_Labels = Map.empty\<rparr>]"
    by (simp add: dev_runtime_def empty_runtime_def)
  from ensure_exact_match[OF h1 h2] h1 h2 q e vq ve f vs show ?thesis
    by (simp add: Let_def)
qed


section \<open>Calls that leave the containers alone\<close>

lemma ID_set_state [simp]: "ID (set_state i s c) = ID c"
  by (simp add: set_state_def)

lemma Config_set_state [simp]: "Config (set_state i s c) = Config c"
  by (simp add: set_state_def)

lemma Names_set_state [simp]: "Names (set_state i s c) = Names c"
  by (simp add: set_state_def)

lemma stateless_set_state [simp]: "stateless (set_state i s c) = stateless c"
  by (simp add: stateless_def set_state_def)

lemma quiet_refl: "quiet d d"
  by (simp add: quiet_def)

lemma quiet_trans: "quiet d d1 \<Longrightarrow> quiet d1 d2 \<Longrightarrow> quiet d d2"
  unfolding quiet_def by auto

lemma invoke_quiet:
  assumes c: "\<not> lifecycle c"
      and e: "\<And>d0. fails (snd (effect d0)) = fails d0 \<and> exec_running (snd (effect d0)) = exec_running d0
                \<and> map stateless (containers (snd (effect d0))) = map stateless (containers d0)
                \<and> trace (snd (effect d0)) = trace d0"
      and r: "invoke c effect d = (r, d')"
  shows "quiet d d'"
proof (cases "fails d (trace d @ [c])")
  case True
  with r have "d' = d\<lparr>trace := trace d @ [c]\<rparr>" by (simp add: invoke_def Let_def)
  with c show ?thesis by (simp add: quiet_def)
next
  case False
  with r have "d' = snd (effect (d\<lparr>trace := trace d @ [c]\<rparr>))"
    by (simp add: invoke_def Let_def split: prod.splits)
  with c e[of "d\<lparr>trace := trace d @ [c]\<rparr>"] show ?thesis by (simp add: quiet_def)
qed

lemma ImagePull_quiet: "ImagePull ref d = (r, d') \<Longrightarrow> quiet d d'"
  unfolding ImagePull_def by (erule invoke_quiet[rotated 2]) simp_all

lemma ReadFrom_quiet: "ReadFrom rdr d = (r, d') \<Longrightarrow> quiet d d'"
  unfolding ReadFrom_def by (erule invoke_quiet[rotated 2]) simp_all

lemma ContainerStart_quiet: "ContainerStart i d = (r, d') \<Longrightarrow> quiet d d'"
  unfolding ContainerStart_def by (erule invoke_quiet[rotated 2]) simp_all

lemma CopyToContainer_quiet: "CopyToContainer i dst content d = (r, d') \<Longrightarrow> quiet d d'"
  unfolding CopyToContainer_def by (erule invoke_quiet[rotated 2]) simp_all

lemma ContainerExecCreate_quiet: "ContainerExecCreate i cfg d = (r, d') \<Longrightarrow> quiet d d'"
  unfolding ContainerExecCreate_def by (erule invoke_quiet[rotated 2]) simp_all

lemma ContainerExecAttach_quiet: "ContainerExecAttach e d = (r, d') \<Longrightarrow> quiet d d'"
  unfolding ContainerExecAttach_def by (erule invoke_quiet[rotated 2]) simp_all

lemma ContainerExecStart_quiet: "ContainerExecStart e d = (r, d') \<Longrightarrow> quiet d d'"
  unfolding ContainerExecStart_def by (erule invoke_quiet[rotated 2]) simp_all

lemma ContainerExecInspect_quiet: "ContainerExecInspect e d = (r, d') \<Longrightarrow> quiet d d'"
  unfolding ContainerExecInspect_def by (erule invoke_quiet[rotated 2]) simp_all

lemma StdCopy_quiet: "StdCopy s d = (r, d') \<Longrightarrow> quiet d d'"
  unfolding StdCopy_def by (erule invoke_quiet[rotated 2]) simp_all

lemma wait_exec_quiet_aux:
  assumes a: "wait_exec e d = Some y"
  shows "quiet d (snd y)"
proof (rule wait_exec.raw_induct[where P = "\<lambda>e d y. quiet d (snd y)", OF _ a])
  fix w e d y
  assume IH: "\<And>e d y. w e d = Some y \<Longrightarrow> quiet d (snd y)"
     and body: "(case ContainerExecInspect e d of
                   (Inl err, d) \<Rightarrow> Some (Inl err, d)
                 | (Inr resp_Running, d) \<Rightarrow>
                     if resp_Running then w e d else Some (Inr (), d)) = Some y"
  obtain r1 d1 where i: "ContainerExecInspect e d = (r1, d1)" by (cases "ContainerExecInspect e d")
  then have q: "quiet d d1" by (rule ContainerExecInspect_quiet)
  show "quiet d (snd y)"
  proof (cases r1)
    case (Inl err)
    with body i have "snd y = d1" by auto
    with q show ?thesis by simp
  next
    case (Inr running)
    show ?thesis
    proof (cases running)
      case True
      with body i Inr have "w e d1 = Some y" by simp
      then have "quiet d1 (snd y)" by (rule IH)
      with q show ?thesis by (rule quiet_trans)
    next
      case False
      with body i Inr have "snd y = d1" by auto
      with q show ?thesis by simp
    qed
  qed
qed

lemma wait_exec_quiet: "wait_exec e d = Some (r, d') \<Longrightarrow> quiet d d'"
  using wait_exec_quiet_aux[of e d "(r, d')"] by simp

lemma run_commands_quiet: "run_commands i cs d = Some (r, d') \<Longrightarrow> quiet d d'"
proof (induction cs arbitrary: d)
  case Nil
  then show ?case by (simp add: quiet_refl)
next
  case (Cons kc cs)
  obtain k c where kc: "kc = (k, c)" by (cases kc)
  let ?cfg = "\<lparr>exec_User = ''root'', exec_AttachStdout = True, exec_AttachStderr = True,
               exec_Tty = False, exec_Cmd = c\<rparr>"
  note run = Cons.prems[unfolded kc]
  obtain r1 d1 where s1: "ContainerExecCreate i ?cfg d = (r1, d1)" by (cases "ContainerExecCreate i ?cfg d")
  have q1: "quiet d d1" using s1 by (rule ContainerExecCreate_quiet)
  show ?case
  proof (cases r1)
    case (Inl err)
    with run s1 have "d' = d1" by simp
    with q1 show ?thesis by simp
  next
    case (Inr e)
    obtain r2 d2 where s2: "ContainerExecAttach e d1 = (r2, d2)" by (cases "ContainerExecAttach e d1")
    have q2: "quiet d d2" using q1 ContainerExecAttach_quiet[OF s2] by (rule quiet_trans)
    show ?thesis
    proof (cases r2)
      case (Inl err)
      with run s1 s2 Inr have "d' = d2" by simp
      with q2 show ?thesis by simp
    next
      case a: (Inr attach)
      obtain r3 d3 where s3: "StdCopy attach d2 = (r3, d3)" by (cases "StdCopy attach d2")
      have q3: "quiet d d3" using q2 StdCopy_quiet[OF s3] by (rule quiet_trans)
      show ?thesis
      proof (cases r3)
        case (Inl err)
        with run s1 s2 s3 Inr a have "d' = d3" by simp
        with q3 show ?thesis by simp
      next
        case b: (Inr u3)
        obtain r4 d4 where s4: "ContainerExecStart e d3 = (r4, d4)" by (cases "ContainerExecStart e d3")
        have q4: "quiet d d4" using q3 ContainerExecStart_quiet[OF s4] by (rule quiet_trans)
        show ?thesis
        proof (cases r4)
          case (Inl err)
          with run s1 s2 s3 s4 Inr a b have "d' = d4" by simp
          with q4 show ?thesis by simp
        next
          case c4: (Inr u4)
          show ?thesis
          proof (cases "wait_exec e d4")
            case None
            with run s1 s2 s3 s4 Inr a b c4 show ?thesis by simp
          next
            case (Some y)
            obtain r5 d5 where y: "y = (r5, d5)" by (cases y)
            have q5: "quiet d d5" using q4 wait_exec_quiet[OF Some[unfolded y]] by (rule quiet_trans)
            show ?thesis
            proof (cases r5)
              case (Inl err)
              with run s1 s2 s3 s4 Inr a b c4 Some y have "d' = d5" by simp
              with q5 show ?thesis by simp
            next
              case c5: (Inr u5)
              obtain r6 d6 where s6: "ContainerStart i d5 = (r6, d6)" by (cases "ContainerStart i d5")
              have q6: "quiet d d6" using q5 ContainerStart_quiet[OF s6] by (rule quiet_trans)
              show ?thesis
              proof (cases r6)
                case (Inl err)
                with run s1 s2 s3 s4 s6 Inr a b c4 Some y c5 have "d' = d6" by simp
                with q6 show ?thesis by simp
              next
                case c6: (Inr u6)
                with run s1 s2 s3 s4 s6 Inr a b c4 Some y c5
                have "run_commands i cs d6 = Some (r, d')" by simp
                then have "quiet d6 d'" by (rule Cons.IH)
                with q6 show ?thesis by (rule quiet_trans)
              qed
            qed
          qed
        qed
      qed
    qed
  qed
qed


section \<open>The site container\<close>

lemma stateless_ID: "stateless a = stateless b \<Longrightarrow> ID a = ID b"
  by (drule arg_cong[where f = ID]) (simp add: stateless_def)

lemma stateless_Config: "stateless a = stateless b \<Longrightarrow> Config a = Config b"
  by (drule arg_cong[where f = Config]) (simp add: stateless_def)

lemma map_stateless_ID: "map stateless xs = map stateless ys \<Longrightarrow> map ID xs = map ID ys"
proof -
  assume "map stateless xs = map stateless ys"
  then have "map ID (map stateless xs) = map ID (map stateless ys)" by simp
  then show ?thesis by (simp add: stateless_def comp_def)
qed

lemma post_install_quiet: "post_install h site i d = Some (r, d') \<Longrightarrow> quiet d d'"
proof (cases "Dir site \<noteq> ''web''")
  case False
  assume "post_install h site i d = Some (r, d')"
  with False have "run_commands i (range_order h []) d = Some (r, d')"
    by (simp add: post_install_def)
  then show ?thesis by (rule run_commands_quiet)
next
  case True
  assume run: "post_install h site i d = Some (r, d')"
  show ?thesis
  proof (cases "archive_Generate h ''default.conf'' (nginx_Generate h (Dir site))")
    case (Inl err)
    with True run have "d' = d" by (simp add: post_install_def Let_def)
    then show ?thesis by (simp add: quiet_refl)
  next
    case (Inr tr)
    obtain r1 d1 where c: "CopyToContainer i ''/tmp'' tr d = (r1, d1)"
      by (cases "CopyToContainer i ''/tmp'' tr d")
    then have q: "quiet d d1" by (rule CopyToContainer_quiet)
    show ?thesis
    proof (cases r1)
      case (Inl err)
      with True run Inr c have "d' = d1" by (simp add: post_install_def Let_def)
      with q show ?thesis by simp
    next
      case u: (Inr u1)
      with True run Inr c have "run_commands i (range_order h nginx_commands) d1 = Some (r, d')"
        by (simp add: post_install_def Let_def)
      then have "quiet d1 d'" by (rule run_commands_quiet)
      with q show ?thesis by (rule quiet_trans)
    qed
  qed
qed

lemma ImagePull_success:
  "ImagePull ref d = (Inr x, d') \<Longrightarrow> next_id d' = next_id d \<and> containers d' = containers d"
  by (auto simp: ImagePull_def invoke_def Let_def split: if_splits)

lemma ReadFrom_success:
  "ReadFrom rdr d = (Inr x, d') \<Longrightarrow> next_id d' = next_id d \<and> containers d' = containers d"
  by (auto simp: ReadFrom_def invoke_def Let_def split: if_splits)

lemma ContainerCreate_success:
  "ContainerCreate req d = (Inr i, d') \<Longrightarrow>
     i = mkid (next_id d)
     \<and> d' = d\<lparr>trace := trace d @ [Call_ContainerCreate req],
               containers := \<lparr>ID = mkid (next_id d), Names = [''/'' @ cr_Name req], State = ''created'',
                               Config = req\<rparr> # containers d,
               next_id := Suc (next_id d)\<rparr>"
  by (auto simp: ContainerCreate_def invoke_def Let_def split: if_splits)

lemma ContainerStop_success:
  "ContainerStop i d = (Inr x, d') \<Longrightarrow>
     d' = d\<lparr>trace := trace d @ [Call_ContainerStop i],
             containers := map (set_state i ''exited'') (containers d)\<rparr>"
  by (auto simp: ContainerStop_def invoke_def Let_def split: if_splits)

lemma ContainerRemove_success:
  "ContainerRemove i d = (Inr x, d') \<Longrightarrow>
     d' = d\<lparr>trace := trace d @ [Call_ContainerRemove i],
             containers := filter (\<lambda>c. ID c \<noteq> i) (containers d)\<rparr>"
  by (auto simp: ContainerRemove_def invoke_def Let_def split: if_splits)

lemma StartOrCreate_unfold:
  "StartOrCreate h home networkID site d =
     (let l = Call_ContainerList True [Filter_label labels_Host (Hostname site)];
          dl = d\<lparr>trace := trace d @ [l]\<rparr>
      in if fails d (trace d @ [l]) then Some (Inl (Errorf ''error getting a list of containers'' None), dl)
         else
           (case filter (\<lambda>c. container_matches c (Filter_label labels_Host (Hostname site))) (containers d) of
              [] \<Rightarrow> create h home networkID site dl
            | c # rest \<Rightarrow>
                (let ci = Call_ContainerInspect (ID c);
                     di = d\<lparr>trace := trace d @ [l, ci]\<rparr>
                 in if fails d (trace d @ [l, ci]) then Some (Inl (DockerError ci), di)
                    else
                      (case find (\<lambda>x. ID x = ID c) (containers d) of
                         None \<Rightarrow> Some (Inl (NoSuchContainer (ID c)), di)
                       | Some details \<Rightarrow>
                           if \<not> match_Site h home site details then
                             (case ContainerStop (ID c) di of
                                (Inl err, d) \<Rightarrow> Some (Inl err, d)
                              | (Inr _, d) \<Rightarrow>
                             (case ContainerRemove (ID c) d of
                                (Inl err, d) \<Rightarrow> Some (Inl err, d)
                              | (Inr _, d) \<Rightarrow> create h home networkID site d))
                           else Some (Inr (ID c), di)))))"
  by (simp add: StartOrCreate_def ContainerList_def ContainerInspect_def invoke_def Let_def
        split: list.splits option.splits)

lemma match_Site_desired:
  assumes "GetAbsPath h site home = Inr path"
      and "Config c = desired_request h networkID site path"
  shows "match_Site h home site c"
  using assms by (simp add: match_Site_def desired_request_def site_request_def)

lemma desired_request_label:
  "cr_Labels (desired_request h networkID site path) labels_Host = Some (Hostname site)"
  by (simp add: desired_request_def site_request_def)

lemma create_success:
  assumes run: "create h home networkID site d = Some (Inr i, d')"
  shows "\<exists>path c cs t.
           GetAbsPath h site home = Inr path \<and> i = mkid (next_id d)
           \<and> containers d' = c # cs \<and> ID c = i \<and> Config c = desired_request h networkID site path
           \<and> map stateless cs = map stateless (containers d)
           \<and> fails d' = fails d
           \<and> trace d' = trace d @ t
           \<and> filter lifecycle t = [Call_ContainerCreate (desired_request h networkID site path)]"
proof -
  let ?img = "NginxImage (Version site)"
  obtain r1 d1 where s1: "ImagePull ?img d = (r1, d1)" by (cases "ImagePull ?img d")
  from run s1 obtain rdr where r1: "r1 = Inr rdr"
    by (cases r1) (auto simp: create_def Let_def)
  obtain r2 d2 where s2: "ReadFrom rdr d1 = (r2, d2)" by (cases "ReadFrom rdr d1")
  from run s1 r1 s2 obtain u2 where r2: "r2 = Inr u2"
    by (cases r2) (auto simp: create_def Let_def)
  from run s1 r1 s2 r2 obtain path where p: "GetAbsPath h site home = Inr path"
    by (cases "GetAbsPath h site home") (auto simp: create_def Let_def)
  let ?req = "desired_request h networkID site path"
  obtain r3 d3 where s3: "ContainerCreate ?req d2 = (r3, d3)" by (cases "ContainerCreate ?req d2")
  from run s1 r1 s2 r2 p s3 obtain j where r3: "r3 = Inr j"
    by (cases r3) (auto simp: create_def Let_def desired_request_def)
  obtain r4 d4 where s4: "ContainerStart j d3 = (r4, d4)" by (cases "ContainerStart j d3")
  from run s1 r1 s2 r2 p s3 r3 s4 obtain u4 where r4: "r4 = Inr u4"
    by (cases r4) (auto simp: create_def Let_def desired_request_def)
  from run s1 r1 s2 r2 p s3 r3 s4 r4 obtain r5 where s5: "post_install h site j d4 = Some (r5, d')" and ij: "i = j"
    by (cases "post_install h site j d4")
       (auto simp: create_def Let_def desired_request_def split: sum.splits)
  have q1: "quiet d d1" using s1 by (rule ImagePull_quiet)
  have q2: "quiet d1 d2" using s2 by (rule ReadFrom_quiet)
  have q02: "quiet d d2" using q1 q2 by (rule quiet_trans)
  have n2: "next_id d2 = next_id d" "containers d2 = containers d"
    using ImagePull_success[OF s1[unfolded r1]] ReadFrom_success[OF s2[unfolded r2]] by simp_all
  note c3 = ContainerCreate_success[OF s3[unfolded r3]]
  have q4: "quiet d3 d4" using s4 by (rule ContainerStart_quiet)
  have q5: "quiet d4 d'" using s5 by (rule post_install_quiet)
  have q35: "quiet d3 d'" using q4 q5 by (rule quiet_trans)
  from q02 obtain ta where ta: "trace d2 = trace d @ ta" "filter lifecycle ta = []" "fails d2 = fails d"
    by (auto simp: quiet_def)
  from q35 obtain tb where tb: "trace d' = trace d3 @ tb" "filter lifecycle tb = []" "fails d' = fails d3"
      and cs: "map stateless (containers d') = map stateless (containers d3)"
    by (auto simp: quiet_def)
  let ?new = "\<lparr>ID = mkid (next_id d2), Names = [''/'' @ cr_Name ?req], State = ''created'', Config = ?req\<rparr>"
  from c3 have cont3: "containers d3 = ?new # containers d2" and tr3: "trace d3 = trace d2 @ [Call_ContainerCreate ?req]"
      and f3: "fails d3 = fails d2" and j: "j = mkid (next_id d2)"
    by simp_all
  from cs cont3 obtain c rest where cr: "containers d' = c # rest" "stateless c = stateless ?new"
      "map stateless rest = map stateless (containers d2)"
    by (cases "containers d'") auto
  have idc: "ID c = i" using stateless_ID[OF cr(2)] ij j by simp
  have cfg: "Config c = ?req" using stateless_Config[OF cr(2)] by simp
  have tr: "trace d' = trace d @ (ta @ Call_ContainerCreate ?req # tb)"
    using ta(1) tb(1) tr3 by simp
  have lc: "filter lifecycle (ta @ Call_ContainerCreate ?req # tb) = [Call_ContainerCreate ?req]"
    using ta(2) tb(2) by simp
  from p ij j n2 cr idc cfg tb(3) f3 ta(3) tr lc show ?thesis
    by (intro exI[of _ path] exI[of _ c] exI[of _ rest] exI[of _ "ta @ Call_ContainerCreate ?req # tb"]) simp
qed

lemma create_settles:
  assumes "create h home networkID site d = Some (Inr i, d')"
  shows "settled h home site i d'"
proof -
  from create_success[OF assms] obtain path c cs where
    p: "GetAbsPath h site home = Inr path" and c: "containers d' = c # cs" "ID c = i"
      "Config c = desired_request h networkID site path"
    by blast
  have m: "match_Site h home site c" using p c(3) by (rule match_Site_desired)
  show ?thesis
    using c m by (simp add: settled_def desired_request_label)
qed

lemma settled_second_call:
  assumes "settled h home site i d"
  shows "StartOrCreate h home networkID site d =
           Some (let l = Call_ContainerList True [Filter_label labels_Host (Hostname site)];
                     c = Call_ContainerInspect i
                 in if fails d (trace d @ [l])
                    then (Inl (Errorf ''error getting a list of containers'' None), d\<lparr>trace := trace d @ [l]\<rparr>)
                    else if fails d (trace d @ [l, c])
                    then (Inl (DockerError c), d\<lparr>trace := trace d @ [l, c]\<rparr>)
                    else (Inr i, d\<lparr>trace := trace d @ [l, c]\<rparr>))"
proof -
  from assms obtain c rest details where
    f: "filter (\<lambda>c. container_matches c (Filter_label labels_Host (Hostname site))) (containers d) = c # rest"
    and i: "ID c = i" and d: "find (\<lambda>c. ID c = i) (containers d) = Some details"
    and m: "match_Site h home site details"
    by (auto simp: settled_def)
  show ?thesis
    unfolding StartOrCreate_unfold using f i d m by (simp add: Let_def)
qed

lemma StartOrCreate_success_cases:
  assumes run: "StartOrCreate h home networkID site d = Some (Inr i, d')"
  defines "l \<equiv> Call_ContainerList True [Filter_label labels_Host (Hostname site)]"
      and "found \<equiv> filter (\<lambda>c. container_matches c (Filter_label labels_Host (Hostname site))) (containers d)"
  shows "(found = [] \<and> create h home networkID site (d\<lparr>trace := trace d @ [l]\<rparr>) = Some (Inr i, d'))
       \<or> (\<exists>c rest details.
             found = c # rest \<and> find (\<lambda>x. ID x = ID c) (containers d) = Some details
             \<and> match_Site h home site details \<and> i = ID c
             \<and> d' = d\<lparr>trace := trace d @ [l, Call_ContainerInspect (ID c)]\<rparr>)
       \<or> (\<exists>c rest details.
             found = c # rest \<and> find (\<lambda>x. ID x = ID c) (containers d) = Some details
             \<and> \<not> match_Site h home site details
             \<and> create h home networkID site
                  (d\<lparr>trace := trace d @ [l, Call_ContainerInspect (ID c), Call_ContainerStop (ID c),
                                          Call_ContainerRemove (ID c)],
                     containers := filter (\<lambda>x. ID x \<noteq> ID c) (map (set_state (ID c) ''exited'') (containers d))\<rparr>)
                 = Some (Inr i, d'))"
proof -
  note u = run[unfolded StartOrCreate_unfold Let_def, folded l_def found_def]
  from u have nl: "\<not> fails d (trace d @ [l])" by (auto split: if_splits)
  show ?thesis
  proof (cases found)
    case Nil
    with u nl show ?thesis by simp
  next
    case (Cons c rest)
    let ?di = "d\<lparr>trace := trace d @ [l, Call_ContainerInspect (ID c)]\<rparr>"
    from u nl Cons have ni: "\<not> fails d (trace d @ [l, Call_ContainerInspect (ID c)])"
      by (auto split: if_splits)
    from u nl Cons ni obtain details where fd: "find (\<lambda>x. ID x = ID c) (containers d) = Some details"
      by (cases "find (\<lambda>x. ID x = ID c) (containers d)") auto
    show ?thesis
    proof (cases "match_Site h home site details")
      case True
      with u nl Cons ni fd show ?thesis by auto
    next
      case False
      obtain r1 d1 where s1: "ContainerStop (ID c) ?di = (r1, d1)" by (cases "ContainerStop (ID c) ?di")
      from u nl Cons ni fd False s1 obtain u1 where r1: "r1 = Inr u1"
        by (cases r1) auto
      obtain r2 d2 where s2: "ContainerRemove (ID c) d1 = (r2, d2)" by (cases "ContainerRemove (ID c) d1")
      from u nl Cons ni fd False s1 r1 s2 obtain u2 where r2: "r2 = Inr u2"
        by (cases r2) auto
      from u nl Cons ni fd False s1 r1 s2 r2 have c: "create h home networkID site d2 = Some (Inr i, d')"
        by simp
      have "d2 = d\<lparr>trace := trace d @ [l, Call_ContainerInspect (ID c), Call_ContainerStop (ID c),
                                          Call_ContainerRemove (ID c)],
                     containers := filter (\<lambda>x. ID x \<noteq> ID c) (map (set_state (ID c) ''exited'') (containers d))\<rparr>"
        using ContainerStop_success[OF s1[unfolded r1]] ContainerRemove_success[OF s2[unfolded r2]]
        by simp
      with c Cons fd False show ?thesis by simp
    qed
  qed
qed

lemma StartOrCreate_settles:
  assumes run: "StartOrCreate h home networkID site d = Some (Inr i, d')"
  shows "settled h home site i d'"
  using StartOrCreate_success_cases[OF run]
proof (elim disjE conjE exE)
  assume "create h home networkID site
            (d\<lparr>trace := trace d @ [Call_ContainerList True [Filter_label labels_Host (Hostname site)]]\<rparr>)
          = Some (Inr i, d')"
  then show ?thesis by (rule create_settles)
next
  fix c :: container and rest :: "container list" and details :: container
  assume "filter (\<lambda>c. container_matches c (Filter_label labels_Host (Hostname site))) (containers d) = c # rest"
     and "find (\<lambda>x. ID x = ID c) (containers d) = Some details"
     and "match_Site h home site details" and "i = ID c"
     and "d' = d\<lparr>trace := trace d @ [Call_ContainerList True [Filter_label labels_Host (Hostname site)],
                                      Call_ContainerInspect (ID c)]\<rparr>"
  then show ?thesis by (auto simp: settled_def)
next
  fix c :: container and rest :: "container list" and details :: container
  assume "create h home networkID site
            (d\<lparr>trace := trace d @ [Call_ContainerList True [Filter_label labels_Host (Hostname site)],
                                    Call_ContainerInspect (ID c), Call_ContainerStop (ID c),
                                    Call_ContainerRemove (ID c)],
               containers := filter (\<lambda>x. ID x \<noteq> ID c) (map (set_state (ID c) ''exited'') (containers d))\<rparr>)
          = Some (Inr i, d')"
  then show ?thesis by (rule create_settles)
qed

lemma wait_exec_returns:
  assumes "finishes_by n d"
  shows "\<exists>t. wait_exec e d = Some (Inr (), d\<lparr>trace := trace d @ t\<rparr>)"
  using assms
proof (induction "n - length (trace d)" arbitrary: d rule: less_induct)
  case less
  let ?c = "Call_ContainerExecInspect e"
  let ?d1 = "d\<lparr>trace := trace d @ [?c]\<rparr>"
  from less.prems have nf: "\<And>t. \<not> fails d t" and fin: "\<And>t. n \<le> length t \<Longrightarrow> \<not> exec_running d t"
    by (simp_all add: finishes_by_def)
  have i: "ContainerExecInspect e d = (Inr (exec_running d (trace d @ [?c])), ?d1)"
    using nf by (simp add: ContainerExecInspect_def invoke_def Let_def)
  show ?case
  proof (cases "exec_running d (trace d @ [?c])")
    case False
    with i have "wait_exec e d = Some (Inr (), d\<lparr>trace := trace d @ [?c]\<rparr>)"
      by (subst wait_exec.simps) simp
    then show ?thesis by blast
  next
    case True
    have "\<not> n \<le> length (trace d @ [?c])" using fin True by blast
    then have m: "n - length (trace ?d1) < n - length (trace d)" by simp
    have f1: "finishes_by n ?d1" using less.prems by (simp add: finishes_by_def)
    from less.hyps[OF m f1] obtain t where "wait_exec e ?d1 = Some (Inr (), ?d1\<lparr>trace := trace ?d1 @ t\<rparr>)"
      by blast
    with i True have "wait_exec e d = Some (Inr (), d\<lparr>trace := trace d @ (?c # t)\<rparr>)"
      by (subst wait_exec.simps) simp
    then show ?thesis by blast
  qed
qed

lemma wait_exec_answered:
  assumes "finishes_by n d"
  shows "\<exists>d'. wait_exec e d = Some (Inr (), d') \<and> finishes_by n d' \<and> containers d' = containers d"
proof -
  from wait_exec_returns[OF assms] obtain t where "wait_exec e d = Some (Inr (), d\<lparr>trace := trace d @ t\<rparr>)"
    by blast
  moreover have "finishes_by n (d\<lparr>trace := trace d @ t\<rparr>)" using assms by (simp add: finishes_by_def)
  ultimately show ?thesis by auto
qed

lemma ImagePull_answered:
  assumes "finishes_by n d"
  shows "\<exists>x d'. ImagePull ref d = (Inr x, d') \<and> finishes_by n d' \<and> containers d' = containers d
           \<and> next_id d' = next_id d"
  using assms by (simp add: ImagePull_def invoke_def Let_def finishes_by_def)

lemma ReadFrom_answered:
  assumes "finishes_by n d"
  shows "\<exists>x d'. ReadFrom rdr d = (Inr x, d') \<and> finishes_by n d' \<and> containers d' = containers d
           \<and> next_id d' = next_id d"
  using assms by (simp add: ReadFrom_def invoke_def Let_def finishes_by_def)

lemma ContainerCreate_answered:
  assumes "finishes_by n d"
  shows "\<exists>d'. ContainerCreate req d = (Inr (mkid (next_id d)), d') \<and> finishes_by n d'
           \<and> present (mkid (next_id d)) d'"
  using assms by (simp add: ContainerCreate_def invoke_def Let_def finishes_by_def present_def)

lemma ContainerStart_answered:
  assumes "finishes_by n d" and "present i d"
  shows "\<exists>x d'. ContainerStart i d = (Inr x, d') \<and> finishes_by n d' \<and> present i d'"
  using assms by (simp add: ContainerStart_def invoke_def Let_def finishes_by_def present_def)

lemma ContainerStop_answered:
  assumes "finishes_by n d" and "present i d"
  shows "\<exists>x d'. ContainerStop i d = (Inr x, d') \<and> finishes_by n d' \<and> present i d'"
  using assms by (simp add: ContainerStop_def invoke_def Let_def finishes_by_def present_def)

lemma ContainerRemove_answered:
  assumes "finishes_by n d" and "present i d"
  shows "\<exists>x d'. ContainerRemove i d = (Inr x, d') \<and> finishes_by n d'"
  using assms by (simp add: ContainerRemove_def invoke_def Let_def finishes_by_def present_def)

lemma CopyToContainer_answered:
  assumes "finishes_by n d"
  shows "\<exists>x d'. CopyToContainer i dst content d = (Inr x, d') \<and> finishes_by n d'
           \<and> containers d' = containers d"
  using assms by (simp add: CopyToContainer_def invoke_def Let_def finishes_by_def)

lemma ContainerExecCreate_answered:
  assumes "finishes_by n d"
  shows "\<exists>e d'. ContainerExecCreate i cfg d = (Inr e, d') \<and> finishes_by n d'
           \<and> containers d' = containers d"
  using assms by (simp add: ContainerExecCreate_def invoke_def Let_def finishes_by_def)

lemma ContainerExecAttach_answered:
  assumes "finishes_by n d"
  shows "\<exists>a d'. ContainerExecAttach e d = (Inr a, d') \<and> finishes_by n d'
           \<and> containers d' = containers d"
  using assms by (simp add: ContainerExecAttach_def invoke_def Let_def finishes_by_def)

lemma StdCopy_answered:
  assumes "finishes_by n d"
  shows "\<exists>x d'. StdCopy s d = (Inr x, d') \<and> finishes_by n d' \<and> containers d' = containers d"
  using assms by (simp add: StdCopy_def invoke_def Let_def finishes_by_def)

lemma ContainerExecStart_answered:
  assumes "finishes_by n d"
  shows "\<exists>x d'. ContainerExecStart e d = (Inr x, d') \<and> finishes_by n d'
           \<and> containers d' = containers d"
  using assms by (simp add: ContainerExecStart_def invoke_def Let_def finishes_by_def)

lemma run_commands_returns:
  assumes "finishes_by n d" and "present i d"
  shows "\<exists>d'. run_commands i cs d = Some (Inr (), d')"
  using assms
proof (induction cs arbitrary: d)
  case Nil
  show ?case by simp
next
  case (Cons kc cs)
  obtain k c where kc: "kc = (k, c)" by (cases kc)
  let ?cfg = "\<lparr>exec_User = ''root'', exec_AttachStdout = True, exec_AttachStderr = True,
               exec_Tty = False, exec_Cmd = c\<rparr>"
  from ContainerExecCreate_answered[OF Cons.prems(1)] obtain e d1 where
    s1: "ContainerExecCreate i ?cfg d = (Inr e, d1)" and f1: "finishes_by n d1"
    and c1: "containers d1 = containers d"
    by blast
  from ContainerExecAttach_answered[OF f1] obtain a d2 where
    s2: "ContainerExecAttach e d1 = (Inr a, d2)" and f2: "finishes_by n d2"
    and c2: "containers d2 = containers d1"
    by blast
  from StdCopy_answered[OF f2] obtain x3 d3 where
    s3: "StdCopy a d2 = (Inr x3, d3)" and f3: "finishes_by n d3" and c3: "containers d3 = containers d2"
    by blast
  from ContainerExecStart_answered[OF f3] obtain x4 d4 where
    s4: "ContainerExecStart e d3 = (Inr x4, d4)" and f4: "finishes_by n d4"
    and c4: "containers d4 = containers d3"
    by blast
  from wait_exec_answered[OF f4] obtain d5 where
    s5: "wait_exec e d4 = Some (Inr (), d5)" and f5: "finishes_by n d5" and c5: "containers d5 = containers d4"
    by blast
  have p5: "present i d5" using Cons.prems(2) c1 c2 c3 c4 c5 by (simp add: present_def)
  from ContainerStart_answered[OF f5 p5] obtain x6 d6 where
    s6: "ContainerStart i d5 = (Inr x6, d6)" and f6: "finishes_by n d6" and p6: "present i d6"
    by blast
  have "run_commands i (kc # cs) d = run_commands i cs d6"
    using s1 s2 s3 s4 s5 s6 by (simp add: kc)
  with Cons.IH[OF f6 p6] show ?case by simp
qed

lemma post_install_returns:
  assumes "finishes_by n d" and "present i d"
      and "archive_Generate h ''default.conf'' (nginx_Generate h (Dir site)) = Inr tr"
  shows "\<exists>d'. post_install h site i d = Some (Inr (), d')"
proof (cases "Dir site \<noteq> ''web''")
  case False
  with run_commands_returns[OF assms(1,2)] show ?thesis by (simp add: post_install_def)
next
  case True
  from CopyToContainer_answered[OF assms(1)] obtain x d1 where
    s1: "CopyToContainer i ''/tmp'' tr d = (Inr x, d1)" and f1: "finishes_by n d1"
    and c1: "containers d1 = containers d"
    by blast
  have p1: "present i d1" using assms(2) c1 by (simp add: present_def)
  have "post_install h site i d = run_commands i (range_order h nginx_commands) d1"
    using True assms(3) s1 by (simp add: post_install_def Let_def)
  with run_commands_returns[OF f1 p1] show ?thesis by simp
qed

lemma create_returns:
  assumes "finishes_by n d"
      and "GetAbsPath h site home = Inr path"
      and "archive_Generate h ''default.conf'' (nginx_Generate h (Dir site)) = Inr tr"
  shows "\<exists>d'. create h home networkID site d = Some (Inr (mkid (next_id d)), d')"
proof -
  let ?img = "NginxImage (Version site)"
  from ImagePull_answered[OF assms(1)] obtain rdr d1 where
    s1: "ImagePull ?img d = (Inr rdr, d1)" and f1: "finishes_by n d1" and n1: "next_id d1 = next_id d"
    by blast
  from ReadFrom_answered[OF f1] obtain x2 d2 where
    s2: "ReadFrom rdr d1 = (Inr x2, d2)" and f2: "finishes_by n d2" and n2: "next_id d2 = next_id d1"
    by blast
  let ?i = "mkid (next_id d2)"
  from ContainerCreate_answered[OF f2] obtain d3 where
    s3: "ContainerCreate (desired_request h networkID site path) d2 = (Inr ?i, d3)"
    and f3: "finishes_by n d3" and p3: "present ?i d3"
    by blast
  from ContainerStart_answered[OF f3 p3] obtain x4 d4 where
    s4: "ContainerStart ?i d3 = (Inr x4, d4)" and f4: "finishes_by n d4" and p4: "present ?i d4"
    by blast
  from post_install_returns[OF f4 p4 assms(3)] obtain d' where
    s5: "post_install h site ?i d4 = Some (Inr (), d')"
    by blast
  have "create h home networkID site d = Some (Inr ?i, d')"
    using s1 s2 assms(2) s3[unfolded desired_request_def] s4 s5 by (simp add: create_def Let_def)
  then show ?thesis using n1 n2 by auto
qed

lemma StartOrCreate_returns:
  assumes "finishes_by n d"
      and "GetAbsPath h site home = Inr path"
      and "archive_Generate h ''default.conf'' (nginx_Generate h (Dir site)) = Inr tr"
  shows "\<exists>i d'. StartOrCreate h home networkID site d = Some (Inr i, d')"
proof -
  let ?l = "Call_ContainerList True [Filter_label labels_Host (Hostname site)]"
  let ?found = "filter (\<lambda>c. container_matches c (Filter_label labels_Host (Hostname site))) (containers d)"
  from assms(1) have nf: "\<And>t. \<not> fails d t" by (simp add: finishes_by_def)
  show ?thesis
  proof (cases ?found)
    case Nil
    have "finishes_by n (d\<lparr>trace := trace d @ [?l]\<rparr>)" using assms(1) by (simp add: finishes_by_def)
    from create_returns[OF this assms(2,3), of networkID] Nil nf show ?thesis
      by (auto simp: StartOrCreate_unfold Let_def)
  next
    case (Cons c rest)
    then have "c \<in> set ?found" by simp
    then have cin: "c \<in> set (containers d)" by simp
    then obtain details where fd: "find (\<lambda>x. ID x = ID c) (containers d) = Some details"
      by (cases "find (\<lambda>x. ID x = ID c) (containers d)") (auto simp: find_None_iff)
    show ?thesis
    proof (cases "match_Site h home site details")
      case True
      with Cons fd nf show ?thesis by (simp add: StartOrCreate_unfold Let_def)
    next
      case False
      let ?di = "d\<lparr>trace := trace d @ [?l, Call_ContainerInspect (ID c)]\<rparr>"
      have fi: "finishes_by n ?di" using assms(1) by (simp add: finishes_by_def)
      have pi: "present (ID c) ?di" using cin by (auto simp: present_def)
      from ContainerStop_answered[OF fi pi] obtain x1 d1 where
        s1: "ContainerStop (ID c) ?di = (Inr x1, d1)" and f1: "finishes_by n d1" and p1: "present (ID c) d1"
        by blast
      from ContainerRemove_answered[OF f1 p1] obtain x2 d2 where
        s2: "ContainerRemove (ID c) d1 = (Inr x2, d2)" and f2: "finishes_by n d2"
        by blast
      from create_returns[OF f2 assms(2,3), of networkID] obtain d' where
        c: "create h home networkID site d2 = Some (Inr (mkid (next_id d2)), d')"
        by auto
      have "StartOrCreate h home networkID site d = create h home networkID site d2"
        using Cons fd False nf s1 s2 by (simp add: StartOrCreate_unfold Let_def)
      with c show ?thesis by simp
    qed
  qed
qed

lemmas runtime_calls =
  invoke_def NetworkList_def NetworkCreate_def VolumeList_def VolumeCreate_def ImageList_def
  ImagePull_def ReadFrom_def ContainerList_def ContainerInspect_def ContainerStop_def
  ContainerRemove_def ContainerCreate_def ContainerStart_def CopyToContainer_def
  ContainerExecCreate_def ContainerExecAttach_def ContainerExecStart_def ContainerExecInspect_def
  ContainerAttach_def StdCopy_def

lemmas port_parsing =
  NewPort_def ParsePortRange_def ParseUint16_def is_digit_def checked_port_def unchecked_port_def
  itoa.simps

text \<open>
  C1. Idempotence of \<open>StartOrCreate\<close>, for every host, site and runtime. Suppose a call
  returns the container identifier \<open>i\<close> and leaves the runtime \<open>d1\<close>. A second call with
  the same arguments on \<open>d1\<close> (nothing else has touched the runtime) returns, and it does
  exactly this: it lists the containers of the site and inspects the container \<open>i\<close>. If
  the runtime answers both calls the result is \<open>i\<close> again. The runtime after the second
  call is \<open>d1\<close> with these two calls added to its log: no create, stop or remove call is
  sent, and no container changes. (The second call fails only if the runtime fails the
  listing or the inspection. A first call returns an identifier whenever the runtime
  answers every call and every exec session finishes, lemma \<open>StartOrCreate_returns\<close>.)
\<close>

theorem StartOrCreate_idempotent:
  assumes "StartOrCreate h home networkID site d = Some (Inr i, d1)"
  shows "StartOrCreate h home networkID site d1 =
           Some (let l = Call_ContainerList True [Filter_label labels_Host (Hostname site)];
                     c = Call_ContainerInspect i
                 in if fails d1 (trace d1 @ [l])
                    then (Inl (Errorf ''error getting a list of containers'' None), d1\<lparr>trace := trace d1 @ [l]\<rparr>)
                    else if fails d1 (trace d1 @ [l, c])
                    then (Inl (DockerError c), d1\<lparr>trace := trace d1 @ [l, c]\<rparr>)
                    else (Inr i, d1\<lparr>trace := trace d1 @ [l, c]\<rparr>))"
  using assms by (intro settled_second_call StartOrCreate_settles)

lemmas site_eval =
  StartOrCreate_def create_def post_install_def example_host_def example_site_def empty_runtime_def
  runtime_calls Let_def wait_exec.simps site_request_def desired_request_def NginxImage_def
  site_extraHosts_def nginx_commands_def mkid_def set_state_def

theorem StartOrCreate_idempotent_witness:
  "StartOrCreate example_host ''/home/user'' ''n1'' example_site empty_runtime
     = Some (Inr ''i'', settled_runtime)
   \<and> map ID (containers settled_runtime) = [''i'']
   \<and> StartOrCreate example_host ''/home/user'' ''n1'' example_site settled_runtime
       = Some (Inr ''i'',
               settled_runtime
                 \<lparr>trace := trace settled_runtime
                            @ [Call_ContainerList True [Filter_label labels_Host ''example.test''],
                               Call_ContainerInspect ''i'']\<rparr>)"
proof -
  have "\<exists>d1. StartOrCreate example_host ''/home/user'' ''n1'' example_site empty_runtime = Some (Inr ''i'', d1)
          \<and> fails d1 = (\<lambda>_. False) \<and> map ID (containers d1) = [''i'']"
    by (simp add: site_eval)
  then have first: "StartOrCreate example_host ''/home/user'' ''n1'' example_site empty_runtime
                      = Some (Inr ''i'', settled_runtime)"
      and nf: "fails settled_runtime = (\<lambda>_. False)"
      and ids: "map ID (containers settled_runtime) = [''i'']"
    by (auto simp: settled_runtime_def)
  have hn: "Hostname example_site = ''example.test''" by (simp add: example_site_def)
  from StartOrCreate_idempotent[OF first] first nf ids hn show ?thesis
    by (simp add: Let_def)
qed

lemma StartOrCreate_rebuild_run:
  assumes run: "StartOrCreate h home networkID site d = Some (Inr i, d')"
      and found: "filter (\<lambda>c. container_matches c (Filter_label labels_Host (Hostname site))) (containers d)
                    = c # rest"
      and shown: "find (\<lambda>x. ID x = ID c) (containers d) = Some details"
      and drift: "\<not> match_Site h home site details"
      and fresh: "fresh_ids d"
  shows "\<exists>path t.
           GetAbsPath h site home = Inr path
           \<and> trace d' = trace d @ t
           \<and> filter lifecycle t
               = [Call_ContainerStop (ID c), Call_ContainerRemove (ID c),
                  Call_ContainerCreate (desired_request h networkID site path)]
           \<and> i \<noteq> ID c
           \<and> (\<exists>x \<in> set (containers d'). ID x = i)
           \<and> \<not> (\<exists>x \<in> set (containers d'). ID x = ID c)"
proof -
  let ?l = "Call_ContainerList True [Filter_label labels_Host (Hostname site)]"
  let ?dr = "d\<lparr>trace := trace d @ [?l, Call_ContainerInspect (ID c), Call_ContainerStop (ID c),
                                      Call_ContainerRemove (ID c)],
                 containers := filter (\<lambda>x. ID x \<noteq> ID c) (map (set_state (ID c) ''exited'') (containers d))\<rparr>"
  from StartOrCreate_success_cases[OF run] found shown drift
  have cr: "create h home networkID site ?dr = Some (Inr i, d')"
    by auto
  from create_success[OF cr] obtain path c1 cs t where
    p: "GetAbsPath h site home = Inr path" and i: "i = mkid (next_id d)"
    and c1: "containers d' = c1 # cs" "ID c1 = i"
    and cs: "map stateless cs = map stateless (containers ?dr)"
    and tr: "trace d' = trace ?dr @ t"
    and lc: "filter lifecycle t = [Call_ContainerCreate (desired_request h networkID site path)]"
    by auto
  have "c \<in> set (filter (\<lambda>c. container_matches c (Filter_label labels_Host (Hostname site))) (containers d))"
    unfolding found by simp
  then have "c \<in> set (containers d)" by simp
  with fresh have "length (ID c) \<le> next_id d" by (simp add: fresh_ids_def)
  moreover have "length (mkid (next_id d)) = Suc (next_id d)" by (simp add: mkid_def)
  ultimately have ne: "i \<noteq> ID c" unfolding i by auto
  have "map ID cs = map ID (containers ?dr)" using cs by (rule map_stateless_ID)
  then have "set (map ID cs) = set (map ID (containers ?dr))" by simp
  then have "ID c \<notin> ID ` set cs" by auto
  then have gone: "\<forall>x \<in> set cs. ID x \<noteq> ID c" by (metis imageI)
  let ?t = "[?l, Call_ContainerInspect (ID c), Call_ContainerStop (ID c), Call_ContainerRemove (ID c)] @ t"
  have t1: "trace d' = trace d @ ?t" using tr by simp
  have t2: "filter lifecycle ?t
              = [Call_ContainerStop (ID c), Call_ContainerRemove (ID c),
                 Call_ContainerCreate (desired_request h networkID site path)]"
    using lc by simp
  have here: "\<exists>x \<in> set (containers d'). ID x = i" using c1 by simp
  have away: "\<not> (\<exists>x \<in> set (containers d'). ID x = ID c)" using c1 ne gone by auto
  from p t1 t2 ne here away show ?thesis by blast
qed

text \<open>
  C2. The rebuild of \<open>StartOrCreate\<close>. Suppose the runtime lists a container \<open>c\<close> first
  for the site and the container it shows for \<open>c\<close>'s identifier is judged drifted by the
  Drift Detector. Then every run that returns an identifier \<open>i\<close> has sent, as its calls
  that create, stop or remove a container and in this order, exactly: stop \<open>c\<close>, remove
  \<open>c\<close>, create the container of the site. The identifier returned is the new
  container's and differs from \<open>c\<close>'s, given that the runtime has not handed out the
  identifiers of its counter before (\<open>fresh_ids\<close>); afterwards the runtime holds the
  container \<open>i\<close> and no container with \<open>c\<close>'s identifier. And the run does return an
  identifier whenever the runtime answers every call, every exec session finishes
  (\<open>finishes_by\<close>), and the site's path and the archive of its virtual-host file can be
  made.
\<close>

theorem StartOrCreate_rebuilds:
  assumes found: "filter (\<lambda>c. container_matches c (Filter_label labels_Host (Hostname site))) (containers d)
                    = c # rest"
      and shown: "find (\<lambda>x. ID x = ID c) (containers d) = Some details"
      and drift: "\<not> match_Site h home site details"
      and fresh: "fresh_ids d"
  shows "(\<forall>i d'. StartOrCreate h home networkID site d = Some (Inr i, d') \<longrightarrow>
            (\<exists>path t.
               GetAbsPath h site home = Inr path
               \<and> trace d' = trace d @ t
               \<and> filter lifecycle t
                   = [Call_ContainerStop (ID c), Call_ContainerRemove (ID c),
                      Call_ContainerCreate (desired_request h networkID site path)]
               \<and> i \<noteq> ID c
               \<and> (\<exists>x \<in> set (containers d'). ID x = i)
               \<and> \<not> (\<exists>x \<in> set (containers d'). ID x = ID c)))
       \<and> (\<forall>n path tr.
            finishes_by n d \<and> GetAbsPath h site home = Inr path
            \<and> archive_Generate h ''default.conf'' (nginx_Generate h (Dir site)) = Inr tr \<longrightarrow>
            (\<exists>i d'. StartOrCreate h home networkID site d = Some (Inr i, d')))"
  using StartOrCreate_rebuild_run[OF _ found shown drift fresh] StartOrCreate_returns
  by blast

theorem StartOrCreate_rebuilds_witness:
  "fresh_ids drifted_runtime
   \<and> finishes_by 0 drifted_runtime
   \<and> \<not> match_Site example_host ''/home/user'' example_site old_container
   \<and> StartOrCreate example_host ''/home/user'' ''n1'' example_site drifted_runtime
       = Some (Inr ''iiii'', rebuilt_runtime)
   \<and> filter lifecycle (trace rebuilt_runtime)
       = [Call_ContainerStop ''old'', Call_ContainerRemove ''old'',
          Call_ContainerCreate (desired_request example_host ''n1'' example_site ''/srv/app'')]
   \<and> map ID (containers rebuilt_runtime) = [''iiii'']"
proof -
  have fresh: "fresh_ids drifted_runtime"
    by (simp add: fresh_ids_def drifted_runtime_def empty_runtime_def old_container_def)
  have found: "filter (\<lambda>c. container_matches c (Filter_label labels_Host (Hostname example_site)))
                 (containers drifted_runtime) = old_container # []"
    by (simp add: drifted_runtime_def empty_runtime_def old_container_def example_site_def
        desired_request_def site_request_def)
  have shown: "find (\<lambda>x. ID x = ID old_container) (containers drifted_runtime) = Some old_container"
    by (simp add: drifted_runtime_def empty_runtime_def)
  have drift: "\<not> match_Site example_host ''/home/user'' example_site old_container"
    by (simp add: match_Site_def old_container_def example_site_def desired_request_def
        site_request_def NginxImage_def)
  have "\<exists>d1. StartOrCreate example_host ''/home/user'' ''n1'' example_site drifted_runtime
               = Some (Inr ''iiii'', d1)
          \<and> map ID (containers d1) = [''iiii''] \<and> trace drifted_runtime = []"
    by (simp add: site_eval drifted_runtime_def old_container_def match_Site_def as_mapping_def
        eval_nat_numeral)
  then have run: "StartOrCreate example_host ''/home/user'' ''n1'' example_site drifted_runtime
                    = Some (Inr ''iiii'', rebuilt_runtime)"
      and ids: "map ID (containers rebuilt_runtime) = [''iiii'']"
      and t0: "trace drifted_runtime = []"
    by (auto simp: rebuilt_runtime_def)
  have p: "GetAbsPath example_host example_site ''/home/user'' = Inr ''/srv/app''"
    by (simp add: example_host_def example_site_def)
  have o: "ID old_container = ''old''" by (simp add: old_container_def)
  have fin: "finishes_by 0 drifted_runtime"
    by (simp add: finishes_by_def drifted_runtime_def empty_runtime_def)
  from StartOrCreate_rebuilds[OF found shown drift fresh, of "''n1''"] run
  have "\<exists>path t.
          GetAbsPath example_host example_site ''/home/user'' = Inr path
          \<and> trace rebuilt_runtime = trace drifted_runtime @ t
          \<and> filter lifecycle t
              = [Call_ContainerStop (ID old_container), Call_ContainerRemove (ID old_container),
                 Call_ContainerCreate (desired_request example_host ''n1'' example_site path)]"
    by blast
  with fresh drift run ids t0 p o fin show ?thesis by auto
qed


section \<open>The composer command\<close>

lemma run_container_effect:
  "volumes (snd (run_container opts d)) = volumes d
   \<and> created_requests (drop (length (trace d)) (trace (snd (run_container opts d)))) = [composer_request opts]
   \<and> filter is_VolumeCreate (drop (length (trace d)) (trace (snd (run_container opts d)))) = []"
  by (simp add: run_container_def CreateContainer_def ContainerCreate_def ContainerAttach_def
        ContainerStart_def StdCopy_def ContainerRemove_def invoke_def Let_def)

lemma composer_RunE_panic:
  "take_version args '''' [] = Inl e \<Longrightarrow> composer_RunE h args d = (Inl e, d)"
  by (simp add: composer_RunE_def)

lemma cache_volume_many:
  assumes "\<not> fails d (trace d @ [Call_VolumeList (cache_filters path)])"
      and "1 < length (filter (\<lambda>v. \<forall>f \<in> set (cache_filters path). volume_matches v f) (volumes d))"
  shows "cache_volume h path version d =
           (Inr zero_volume, d\<lparr>trace := trace d @ [Call_VolumeList (cache_filters path)]\<rparr>)"
proof -
  let ?vols = "filter (\<lambda>v. \<forall>f \<in> set (cache_filters path). volume_matches v f) (volumes d)"
  from assms(2) have "length ?vols \<noteq> 1" "length ?vols \<noteq> 0" by auto
  with assms(1) show ?thesis
    by (simp add: cache_volume_def VolumeList_def invoke_def Let_def)
qed

text \<open>
  The two counts that the \<open>switch\<close> handles: a single volume found is reused, and
  with no volume found one is created under the computed name.
\<close>

lemma cache_volume_one:
  assumes "\<not> fails d (trace d @ [Call_VolumeList (cache_filters path)])"
      and "filter (\<lambda>v. \<forall>f \<in> set (cache_filters path). volume_matches v f) (volumes d) = [v]"
  shows "cache_volume h path version d =
           (Inr v, d\<lparr>trace := trace d @ [Call_VolumeList (cache_filters path)]\<rparr>)"
  using assms by (simp add: cache_volume_def VolumeList_def invoke_def Let_def)

lemma cache_volume_zero:
  assumes "\<not> fails d (trace d @ [Call_VolumeList (cache_filters path)])"
      and "filter (\<lambda>v. \<forall>f \<in> set (cache_filters path). volume_matches v f) (volumes d) = []"
      and "\<not> fails d (trace d @ [Call_VolumeList (cache_filters path),
              Call_VolumeCreate ''local'' (name h path version)
                [labels_Type \<mapsto> ''composer'', labels_Path \<mapsto> path]])"
  shows "\<exists>d'. cache_volume h path version d =
           (Inr \<lparr>volume_Name = name h path version, volume_Driver = ''local'',
                 volume_Labels = [labels_Type \<mapsto> ''composer'', labels_Path \<mapsto> path]\<rparr>, d')
         \<and> volumes d' =
             \<lparr>volume_Name = name h path version, volume_Driver = ''local'',
               volume_Labels = [labels_Type \<mapsto> ''composer'', labels_Path \<mapsto> path]\<rparr> # volumes d
         \<and> trace d' = trace d @ [Call_VolumeList (cache_filters path),
              Call_VolumeCreate ''local'' (name h path version)
                [labels_Type \<mapsto> ''composer'', labels_Path \<mapsto> path]]"
  using assms by (simp add: cache_volume_def VolumeList_def VolumeCreate_def invoke_def Let_def)

text \<open>
  C8. The task run of the composer command (\<open>run_container\<close>, the last part of \<open>RunE\<close>),
  once the runtime has answered the create, attach and start calls; the task container is
  \<open>mkid (next_id d)\<close>. If copying the output fails, the run returns that error, sends no
  remove call (the copy is the last call in the log) and the container is still there. If
  the copy ends without an error, the run goes on to the remove call for the task
  container, the last call it sends: when the runtime carries it out the run returns
  without an error and the container is gone, and when the runtime fails it the run
  returns that error.
\<close>

theorem run_container_removes:
  assumes "\<not> fails d (trace d @ take 1 (task_calls opts d))"
      and "\<not> fails d (trace d @ take 2 (task_calls opts d))"
      and "\<not> fails d (trace d @ take 3 (task_calls opts d))"
  shows "(case run_container opts d of (r, d') \<Rightarrow>
           if fails d (trace d @ take 4 (task_calls opts d)) then
             r = Inl (Errorf ''unable to copy the output of the container logs, ''
                        (Some (DockerError (Call_StdCopy (mkid (next_id d))))))
             \<and> trace d' = trace d @ take 4 (task_calls opts d)
             \<and> (\<exists>c \<in> set (containers d'). ID c = mkid (next_id d))
           else
             trace d' = trace d @ task_calls opts d
             \<and> (if fails d (trace d @ task_calls opts d) then
                   r = Inl (DockerError (Call_ContainerRemove (mkid (next_id d))))
                   \<and> (\<exists>c \<in> set (containers d'). ID c = mkid (next_id d))
                 else r = Inr () \<and> \<not> (\<exists>c \<in> set (containers d'). ID c = mkid (next_id d))))"
  using assms
  by (simp add: run_container_def CreateContainer_def ContainerCreate_def ContainerAttach_def
        ContainerStart_def StdCopy_def ContainerRemove_def invoke_def task_calls_def Let_def)

theorem run_container_removes_witness:
  "\<not> fails empty_runtime (trace empty_runtime @ take 3 (task_calls example_opts empty_runtime))
   \<and> fst (run_container example_opts empty_runtime) = Inr ()
   \<and> containers (snd (run_container example_opts empty_runtime)) = []
   \<and> trace (snd (run_container example_opts empty_runtime))
       = [Call_ContainerCreate (composer_request example_opts), Call_ContainerAttach ''i'',
          Call_ContainerStart ''i'', Call_StdCopy ''i'', Call_ContainerRemove ''i'']
   \<and> fst (run_container example_opts (empty_runtime\<lparr>fails := (\<lambda>t. length t = 4)\<rparr>))
       = Inl (Errorf ''unable to copy the output of the container logs, ''
                (Some (DockerError (Call_StdCopy ''i''))))
   \<and> map ID (containers (snd (run_container example_opts (empty_runtime\<lparr>fails := (\<lambda>t. length t = 4)\<rparr>)))) = [''i'']"
proof -
  have f: "\<not> fails empty_runtime t" for t
    by (simp add: empty_runtime_def)
  have g: "fails (empty_runtime\<lparr>fails := (\<lambda>t. length t = 4)\<rparr>) t = (length t = 4)" for t
    by simp
  have t0: "trace empty_runtime = []" "next_id empty_runtime = 0"
    by (simp_all add: empty_runtime_def)
  have a: "fst (run_container example_opts empty_runtime) = Inr ()
           \<and> trace (snd (run_container example_opts empty_runtime)) = task_calls example_opts empty_runtime
           \<and> (\<forall>c \<in> set (containers (snd (run_container example_opts empty_runtime))). ID c \<noteq> ''i'')"
    using run_container_removes[of empty_runtime example_opts, OF f f f] f
    by (simp add: t0 mkid_def split: prod.splits)
  have c: "containers (snd (run_container example_opts empty_runtime)) = []"
    by (simp add: run_container_def CreateContainer_def ContainerCreate_def ContainerAttach_def
        ContainerStart_def StdCopy_def ContainerRemove_def invoke_def Let_def empty_runtime_def
        mkid_def set_state_def)
  have b: "fst (run_container example_opts (empty_runtime\<lparr>fails := (\<lambda>t. length t = 4)\<rparr>))
             = Inl (Errorf ''unable to copy the output of the container logs, ''
                      (Some (DockerError (Call_StdCopy ''i''))))
           \<and> map ID (containers (snd (run_container example_opts (empty_runtime\<lparr>fails := (\<lambda>t. length t = 4)\<rparr>)))) = [''i'']"
    by (simp add: run_container_def CreateContainer_def ContainerCreate_def ContainerAttach_def
        ContainerStart_def StdCopy_def ContainerRemove_def invoke_def Let_def empty_runtime_def
        mkid_def set_state_def)
  from a b c f show ?thesis
    by (simp add: task_calls_def t0 mkid_def Let_def)
qed

text \<open>
  C9. A composer invocation whose arguments yield the action \<open>action\<close> (the first of the
  arguments left once the version is taken out), in a working directory \<open>path\<close> without a
  \<open>composer.json\<close>: unless the action is \<open>create-project\<close>, the command returns the error
  and the runtime is as it was, its log included: no call has been sent. (Arguments that
  end in \<open>--composer-version\<close> make the version loop panic before there is an action;
  then, too, no call is sent, see \<open>composer_RunE_panic\<close>.)
\<close>

theorem composer_requires_composer_json:
  assumes "take_version args '''' [] = Inr (version, action # rest)"
      and "action \<noteq> ''create-project''"
      and "Getwd h = Inr wd" and "filepath_Abs h wd = Inr path"
      and "\<not> IsFile h (filepath_Join h path ''composer.json'')"
  shows "composer_RunE h args d =
           (Inl (Errorf (''unable to find file '' @ filepath_Join h path ''composer.json'') None), d)"
  using assms by (simp add: composer_RunE_def)

theorem composer_requires_composer_json_witness:
  "take_version [''install'', ''--no-dev''] '''' [] = Inr ('''', [''install'', ''--no-dev''])
   \<and> \<not> IsFile (example_host\<lparr>IsFile := (\<lambda>_. False)\<rparr>) ''/srv/app/composer.json''
   \<and> composer_RunE (example_host\<lparr>IsFile := (\<lambda>_. False)\<rparr>) [''install'', ''--no-dev''] empty_runtime
       = (Inl (Errorf ''unable to find file /srv/app/composer.json'' None), empty_runtime)"
proof -
  let ?h = "example_host\<lparr>IsFile := (\<lambda>_. False)\<rparr>"
  have p: "take_version [''install'', ''--no-dev''] '''' [] = Inr ('''', [''install'', ''--no-dev''])"
    by simp
  have a: "''install'' \<noteq> ''create-project''" by simp
  have w: "Getwd ?h = Inr ''/srv/app''" "filepath_Abs ?h ''/srv/app'' = Inr ''/srv/app''"
    by (simp_all add: example_host_def)
  have j: "filepath_Join ?h ''/srv/app'' ''composer.json'' = ''/srv/app/composer.json''"
    by (simp add: example_host_def)
  have n: "\<not> IsFile ?h (filepath_Join ?h ''/srv/app'' ''composer.json'')"
    by simp
  from composer_requires_composer_json[OF p a w n, of empty_runtime] p j show ?thesis
    by simp
qed

text \<open>
  C10. The cache-volume step of the composer command when the labelled volume query
  returns more than one volume. The hypotheses say that the run gets as far as the query
  and that the query is answered. Then the step neither reuses nor creates a volume: the
  run continues as the task run with the zero-valued volume in its options, the volumes
  of the runtime stay as they are, no volume-create call is sent, and the one
  container-create call that is sent names the empty volume name as the source of its
  volume mount.
\<close>

theorem composer_many_volumes:
  assumes "take_version args '''' [] = Inr (version, action # rest)"
      and "Getwd h = Inr wd" and "filepath_Abs h wd = Inr path"
      and "action = ''create-project'' \<or> IsFile h (filepath_Join h path ''composer.json'')"
      and "pull_if_absent (composer_image (default_version version)) d = (Inr (), d1)"
      and "\<not> fails d1 (trace d1 @ [Call_VolumeList (cache_filters path)])"
      and "1 < length (filter (\<lambda>v. \<forall>f \<in> set (cache_filters path). volume_matches v f) (volumes d1))"
  shows "(let opts = composer_opts (composer_image (default_version version)) (action # rest) path zero_volume;
              d2 = d1\<lparr>trace := trace d1 @ [Call_VolumeList (cache_filters path)]\<rparr>;
              d' = snd (composer_RunE h args d)
          in composer_RunE h args d = run_container opts d2
             \<and> volumes d' = volumes d1
             \<and> filter is_VolumeCreate (drop (length (trace d1)) (trace d')) = []
             \<and> created_requests (drop (length (trace d1)) (trace d')) = [composer_request opts]
             \<and> map mount_Source (filter (\<lambda>m. mount_Type m = TypeVolume) (cr_Mounts (composer_request opts)))
                 = [''''])"
proof -
  let ?opts = "composer_opts (composer_image (default_version version)) (action # rest) path zero_volume"
  let ?d2 = "d1\<lparr>trace := trace d1 @ [Call_VolumeList (cache_filters path)]\<rparr>"
  have run: "composer_RunE h args d = run_container ?opts ?d2"
    using assms(1-5) cache_volume_many[OF assms(6,7)]
    by (auto simp: composer_RunE_def Let_def)
  have eff: "volumes (snd (run_container ?opts ?d2)) = volumes ?d2
      \<and> created_requests (drop (length (trace ?d2)) (trace (snd (run_container ?opts ?d2)))) = [composer_request ?opts]
      \<and> filter is_VolumeCreate (drop (length (trace ?d2)) (trace (snd (run_container ?opts ?d2)))) = []"
    by (rule run_container_effect)
  have grow: "\<exists>t. trace (snd (run_container ?opts ?d2)) = trace ?d2 @ t"
    by (simp add: run_container_def CreateContainer_def ContainerCreate_def ContainerAttach_def
        ContainerStart_def StdCopy_def ContainerRemove_def invoke_def Let_def)
  then obtain t where t: "trace (snd (run_container ?opts ?d2)) = trace d1 @ Call_VolumeList (cache_filters path) # t"
    by auto
  have src: "map mount_Source (filter (\<lambda>m. mount_Type m = TypeVolume) (cr_Mounts (composer_request ?opts))) = ['''']"
    by (simp add: composer_request_def composer_opts_def zero_volume_def)
  from eff t have "volumes (snd (run_container ?opts ?d2)) = volumes d1
      \<and> created_requests (drop (length (trace d1)) (trace (snd (run_container ?opts ?d2)))) = [composer_request ?opts]
      \<and> filter is_VolumeCreate (drop (length (trace d1)) (trace (snd (run_container ?opts ?d2)))) = []"
    by simp
  with run src show ?thesis
    by (simp add: Let_def)
qed

theorem composer_many_volumes_witness:
  "1 < length (filter (\<lambda>v. \<forall>f \<in> set (cache_filters ''/srv/app''). volume_matches v f)
                 (volumes two_caches_runtime))
   \<and> fst (composer_RunE example_host [''install''] two_caches_runtime) = Inr ()
   \<and> map volume_Name (volumes (snd (composer_RunE example_host [''install''] two_caches_runtime)))
       = [''cache_b'', ''cache_a'']
   \<and> map cr_Mounts (created_requests (trace (snd (composer_RunE example_host [''install''] two_caches_runtime))))
       = [[\<lparr>mount_Type = TypeVolume, mount_Source = '''', mount_Target = ''/tmp''\<rparr>,
           \<lparr>mount_Type = TypeBind, mount_Source = ''/srv/app'', mount_Target = ''/app''\<rparr>]]"
proof -
  let ?d1 = "two_caches_runtime\<lparr>trace := [Call_ImageList [Filter_reference ''docker.io/library/composer:2'']]\<rparr>"
  have p: "take_version [''install''] '''' [] = Inr ('''', [''install''])"
    by simp
  have w: "Getwd example_host = Inr ''/srv/app''" "filepath_Abs example_host ''/srv/app'' = Inr ''/srv/app''"
    by (simp_all add: example_host_def)
  have c: "''install'' = ''create-project'' \<or> IsFile example_host (filepath_Join example_host ''/srv/app'' ''composer.json'')"
    by (simp add: example_host_def)
  have i: "pull_if_absent (composer_image (default_version '''')) two_caches_runtime = (Inr (), ?d1)"
    by (simp add: pull_if_absent_def ImageList_def invoke_def composer_image_def default_version_def
        two_caches_runtime_def empty_runtime_def)
  have l: "\<not> fails ?d1 (trace ?d1 @ [Call_VolumeList (cache_filters ''/srv/app'')])"
    by (simp add: two_caches_runtime_def empty_runtime_def)
  have m: "1 < length (filter (\<lambda>v. \<forall>f \<in> set (cache_filters ''/srv/app''). volume_matches v f) (volumes ?d1))"
    by (simp add: cache_filters_def two_caches_runtime_def empty_runtime_def)
  have r: "fst (composer_RunE example_host [''install''] two_caches_runtime) = Inr ()"
    using composer_many_volumes[OF p w c i l m]
    by (simp add: Let_def run_container_def CreateContainer_def ContainerCreate_def ContainerAttach_def
        ContainerStart_def StdCopy_def ContainerRemove_def invoke_def two_caches_runtime_def
        empty_runtime_def)
  have t: "created_requests (trace (snd (composer_RunE example_host [''install''] two_caches_runtime)))
             = [composer_request (composer_opts (composer_image (default_version '''')) [''install''] ''/srv/app'' zero_volume)]"
    using composer_many_volumes[OF p w c i l m]
    by (simp add: Let_def run_container_def CreateContainer_def ContainerCreate_def ContainerAttach_def
        ContainerStart_def StdCopy_def ContainerRemove_def invoke_def two_caches_runtime_def
        empty_runtime_def)
  have "volumes (snd (composer_RunE example_host [''install''] two_caches_runtime)) = volumes ?d1"
    using composer_many_volumes[OF p w c i l m] unfolding Let_def by blast
  then have v: "volumes (snd (composer_RunE example_host [''install''] two_caches_runtime)) = volumes two_caches_runtime"
    by simp
  from m r t v show ?thesis
    by (simp add: composer_request_def composer_opts_def zero_volume_def two_caches_runtime_def
        empty_runtime_def)
qed


section \<open>The code at inputs where it departs from the spec\<close>

text \<open>
  C3, at a failing input. The two provisioning commands are the entries of a Go map, and
  the loop over a map visits its entries in an order the language leaves open. For the
  site of scenario B on an empty runtime, when the iteration visits the entries in the
  reverse of the insertion order, \<open>create\<close> succeeds and the exec sessions it has created
  run \<open>chmod\<close> first and \<open>cp\<close> second.
\<close>

theorem create_commands_reversed:
  "map_option (\<lambda>(r, d). (r, exec_commands (trace d)))
     (create (example_host\<lparr>range_order := rev\<rparr>) ''/home/user'' ''n1'' example_site empty_runtime)
   = Some (Inr ''i'',
           [[''chmod'', ''0644'', ''/etc/nginx/conf.d/default.conf''],
            [''cp'', ''/tmp/default.conf'', ''/etc/nginx/conf.d/default.conf'']])"
  by (simp add: create_def post_install_def example_host_def example_site_def empty_runtime_def runtime_calls Let_def
        wait_exec.simps site_request_def NginxImage_def site_extraHosts_def nginx_commands_def
        mkid_def set_state_def)

text \<open>
  C5, at a failing input. With \<open>NITRO_HTTP_PORT=8080\<close> and no proxy container yet, the
  bootstrap succeeds and creates one container; its port \<open>8080/tcp\<close> is bound to
  \<open>127.0.0.1\<close> with the host port \<open>80\<close>, the text written in the source, not \<open>8080\<close>.
\<close>

theorem proxy_host_port_ignores_override:
  "(case initialize_proxy
           (example_host\<lparr>Getenv := (\<lambda>k. if k = ''NITRO_HTTP_PORT'' then ''8080'' else '''')\<rparr>)
           ''dev'' empty_runtime of
      (r, d) \<Rightarrow> (r, map (\<lambda>req. cr_PortBindings req ''8080/tcp'') (created_requests (trace d))))
   = (Inr (), [Some [\<lparr>HostIP = ''127.0.0.1'', HostPort = ''80''\<rparr>]])"
  by (simp add: initialize_proxy_def ensure_network_def ensure_volume_def ensure_proxy_image_def
        exact_network_def exact_volume_def exact_proxy_def resolve_ports_def example_host_def
        empty_runtime_def runtime_calls port_parsing proxy_request_def mkid_def set_state_def Let_def)

text \<open>
  C6, at a failing input. \<open>NITRO_HTTPS_PORT=abc\<close> is not a port number, and \<open>nat.NewPort\<close>
  answers with an error; the source drops that error. The port resolution succeeds with
  an empty HTTPS port, and the bootstrap goes on to create the proxy container, exposing
  the empty port, and succeeds.
\<close>

theorem proxy_https_override_unchecked:
  "NewPort ''tcp'' ''abc'' = Inl (LibraryError ''invalid syntax'')
   \<and> resolve_ports (example_host\<lparr>Getenv := (\<lambda>k. if k = ''NITRO_HTTPS_PORT'' then ''abc'' else '''')\<rparr>)
       = Inr (''80/tcp'', '''', ''5000/tcp'', ''9003/tcp'')
   \<and> (case initialize_proxy
              (example_host\<lparr>Getenv := (\<lambda>k. if k = ''NITRO_HTTPS_PORT'' then ''abc'' else '''')\<rparr>)
              ''dev'' empty_runtime of
         (r, d) \<Rightarrow> (r, map (\<lambda>req. '''' \<in> cr_ExposedPorts req) (created_requests (trace d))))
       = (Inr (), [True])"
  by (simp add: initialize_proxy_def ensure_network_def ensure_volume_def ensure_proxy_image_def
        exact_network_def exact_volume_def exact_proxy_def resolve_ports_def example_host_def
        empty_runtime_def runtime_calls port_parsing proxy_request_def mkid_def set_state_def Let_def)

end
